theory Spec2Isabelle
  imports Main
begin

section \<open>Variable filter\<close>

text \<open>
  The debugger of xeus-python (\<^verbatim>\<open>src/xdebugger.cpp\<close>) intercepts four requests of the
  debug protocol. This theory embeds its request handlers and lifecycle functions and
  proves the properties its specification states about them.

  A \<^verbatim>\<open>std::string\<close> is a \<^typ>\<open>string\<close>: a list of bytes.
\<close>

type_synonym name_list = "string list"

text \<open>\<^verbatim>\<open>get_excluded_variables\<close>: the static list, in the order of the source.\<close>

definition get_excluded_variables :: name_list where
  "get_excluded_variables =
    [ ''__name__'',
      ''__doc__'',
      ''__package__'',
      ''__loader__'',
      ''__spec__'',
      ''__annotations__'',
      ''__builtins__'',
      ''__builtin__'',
      ''display'',
      ''get_ipython'',
      ''debugpy'',
      ''exit'',
      ''quit'',
      ''In'',
      ''Out'',
      ''_oh'',
      ''_dh'',
      ''_'',
      ''__'',
      ''___'' ]"

text \<open>
  \<^verbatim>\<open>std::string::operator[]\<close>: the character at \<open>pos\<close>, and the null character at
  \<open>pos = size()\<close>. \<^verbatim>\<open>keep_variable\<close> never reads further: it reads position 1 only
  after position 0 held an underscore (the \<^verbatim>\<open>&&\<close> of C++ evaluates its right operand
  only then), so the last branch is never taken by it.
\<close>

definition string_at :: "string \<Rightarrow> nat \<Rightarrow> char" where
  "string_at s pos = (if pos < length s then s ! pos else CHR 0x00)"

text \<open>\<^verbatim>\<open>std::isdigit\<close> in the C locale: the ten decimal digits.\<close>

definition isdigit :: "char \<Rightarrow> bool" where
  "isdigit c = (c \<in> set ''0123456789'')"

text \<open>
  \<^verbatim>\<open>keep_variable\<close>. \<^verbatim>\<open>var_name.substr(0u, 2u)\<close> is the first two characters, or all
  of a shorter name; \<^verbatim>\<open>std::find\<close> over the list is membership.
\<close>

definition keep_variable :: "string \<Rightarrow> bool" where
  "keep_variable var_name =
    (let l = get_excluded_variables;
         res = (take 2 var_name \<noteq> ''_i'');
         res = (res \<and> \<not> (string_at var_name 0 = CHR ''_'' \<and> isdigit (string_at var_name 1)));
         res = (res \<and> var_name \<notin> set l)
     in res)"

section \<open>JSON values and exceptions\<close>

text \<open>
  A \<^verbatim>\<open>nlohmann::json\<close> value. An object is a \<^verbatim>\<open>std::map\<close> from strings to values:
  its entries are held in increasing key order, one entry per key, so two objects with
  the same entries are equal. Integers are held in 64 bits. Floating-point numbers are
  not part of the model.
\<close>

datatype json =
    JNull
  | JBool bool
  | JInt int
  | JString string
  | JArray "json list"
  | JObject "(string \<times> json) list"

text \<open>
  The exceptions the handlers can meet: \<^verbatim>\<open>nlohmann::json::type_error\<close>; the failed
  assertion of the constant \<^verbatim>\<open>operator[]\<close> on a key the object lacks;
  \<^verbatim>\<open>std::invalid_argument\<close> and \<^verbatim>\<open>std::out_of_range\<close>;
  \<^verbatim>\<open>pybind11::error_already_set\<close> (a Python exception); the \<^verbatim>\<open>std::runtime_error\<close> of
  the conversion of a Python object to JSON; \<^verbatim>\<open>zmq::error_t\<close>.
\<close>

datatype exn =
    type_error
  | key_missing
  | invalid_argument
  | out_of_range
  | error_already_set
  | runtime_error
  | zmq_error

definition and_then :: "exn + 'a \<Rightarrow> ('a \<Rightarrow> exn + 'b) \<Rightarrow> exn + 'b" where
  "and_then m f = (case m of Inl e \<Rightarrow> Inl e | Inr x \<Rightarrow> f x)"

text \<open>The order of \<^verbatim>\<open>std::string\<close>: lexicographic, on unsigned bytes.\<close>

fun string_less :: "string \<Rightarrow> string \<Rightarrow> bool" where
  "string_less [] [] = False"
| "string_less [] (y # ys) = True"
| "string_less (x # xs) [] = False"
| "string_less (x # xs) (y # ys) =
     ((of_char x :: nat) < of_char y \<or> (x = y \<and> string_less xs ys))"

text \<open>Storing a value under a key of an object: replaced in place, or inserted in order.\<close>

fun obj_set :: "(string \<times> json) list \<Rightarrow> string \<Rightarrow> json \<Rightarrow> (string \<times> json) list" where
  "obj_set [] k v = [(k, v)]"
| "obj_set ((k', v') # kvs) k v =
     (if k = k' then (k, v) # kvs
      else if string_less k k' then (k, v) # (k', v') # kvs
      else (k', v') # obj_set kvs k v)"

text \<open>
  An object written as an initializer list of pairs. The keys of every such list in the
  source are distinct string literals.
\<close>

definition json_object :: "(string \<times> json) list \<Rightarrow> json" where
  "json_object kvs = JObject (fold (\<lambda>(k, v) m. obj_set m k v) kvs [])"

text \<open>
  \<^verbatim>\<open>operator[]\<close> with a key on a constant value: the value stored under the key. On an
  object without the key an assertion fails; on anything but an object a
  \<^verbatim>\<open>type_error\<close> is thrown.
\<close>

definition json_at :: "json \<Rightarrow> string \<Rightarrow> exn + json" where
  "json_at j k =
    (case j of
       JObject kvs \<Rightarrow> (case map_of kvs k of Some v \<Rightarrow> Inr v | None \<Rightarrow> Inl key_missing)
     | _ \<Rightarrow> Inl type_error)"

text \<open>
  \<^verbatim>\<open>operator[]\<close> with a key on a mutable value, read: \<open>null\<close> becomes an object, a
  missing key is inserted with the value \<open>null\<close>, and the value under the key is the
  result. \<open>json_set\<close> is the assignment \<^verbatim>\<open>j[k] = v\<close>, and \<open>json_set2\<close> is
  \<^verbatim>\<open>j[k1][k2] = v\<close>.
\<close>

definition json_ref :: "json \<Rightarrow> string \<Rightarrow> exn + json" where
  "json_ref j k =
    (case j of
       JNull \<Rightarrow> Inr JNull
     | JObject kvs \<Rightarrow> (case map_of kvs k of Some v \<Rightarrow> Inr v | None \<Rightarrow> Inr JNull)
     | _ \<Rightarrow> Inl type_error)"

definition json_set :: "json \<Rightarrow> string \<Rightarrow> json \<Rightarrow> exn + json" where
  "json_set j k v =
    (case j of
       JNull \<Rightarrow> Inr (JObject [(k, v)])
     | JObject kvs \<Rightarrow> Inr (JObject (obj_set kvs k v))
     | _ \<Rightarrow> Inl type_error)"

definition json_set2 :: "json \<Rightarrow> string \<Rightarrow> string \<Rightarrow> json \<Rightarrow> exn + json" where
  "json_set2 j k1 k2 v =
    and_then (json_ref j k1) (\<lambda>inner.
    and_then (json_set inner k2 v) (\<lambda>inner'.
    json_set j k1 inner'))"

text \<open>
  \<^verbatim>\<open>get<int>()\<close>: a \<^verbatim>\<open>static_cast<int>\<close> of the stored 64-bit integer, which keeps the
  low 32 bits (two's complement); a boolean converts to 0 or 1; any other value throws.
  \<open>int_range\<close> holds of the values of an \<^verbatim>\<open>int\<close>.
\<close>

definition to_int32 :: "int \<Rightarrow> int" where
  "to_int32 n = (n + 2 ^ 31) mod 2 ^ 32 - 2 ^ 31"

definition int_range :: "int \<Rightarrow> bool" where
  "int_range n = (- (2 ^ 31) \<le> n \<and> n < 2 ^ 31)"

definition get_int :: "json \<Rightarrow> exn + int" where
  "get_int j =
    (case j of
       JInt n \<Rightarrow> Inr (to_int32 n)
     | JBool b \<Rightarrow> Inr (if b then 1 else 0)
     | _ \<Rightarrow> Inl type_error)"

definition get_string :: "json \<Rightarrow> exn + string" where
  "get_string j = (case j of JString s \<Rightarrow> Inr s | _ \<Rightarrow> Inl type_error)"

fun get_strings :: "json list \<Rightarrow> exn + string list" where
  "get_strings [] = Inr []"
| "get_strings (j # js) =
     (case get_string j of
        Inl e \<Rightarrow> Inl e
      | Inr s \<Rightarrow> (case get_strings js of Inl e \<Rightarrow> Inl e | Inr ss \<Rightarrow> Inr (s # ss)))"

definition get_string_vector :: "json \<Rightarrow> exn + string list" where
  "get_string_vector j = (case j of JArray js \<Rightarrow> get_strings js | _ \<Rightarrow> Inl type_error)"

text \<open>\<^verbatim>\<open>find\<close>: the value under a key of an object, and \<open>end()\<close> otherwise.\<close>

definition json_find :: "json \<Rightarrow> string \<Rightarrow> json option" where
  "json_find j k = (case j of JObject kvs \<Rightarrow> map_of kvs k | _ \<Rightarrow> None)"

section \<open>Strings of the standard library\<close>

text \<open>
  \<^verbatim>\<open>substr(pos, n)\<close> throws \<^verbatim>\<open>std::out_of_range\<close> when \<open>pos\<close> is beyond the size, and
  stops at the end of the string. \<open>size_sub\<close> is the subtraction of \<^verbatim>\<open>size_t\<close>, for
  sizes below \<open>2 ^ 64\<close>: it wraps around when the second is the larger.
\<close>

definition substr :: "string \<Rightarrow> nat \<Rightarrow> nat \<Rightarrow> exn + string" where
  "substr s pos n = (if length s < pos then Inl out_of_range else Inr (take n (drop pos s)))"

definition size_sub :: "nat \<Rightarrow> nat \<Rightarrow> nat" where
  "size_sub a b = (if b \<le> a then a - b else a + 2 ^ 64 - b)"

text \<open>
  \<^verbatim>\<open>std::stoi\<close> in base 10: leading white space is skipped, a sign is optional, the
  longest run of digits is read, and what follows is ignored. No digit at all throws
  \<^verbatim>\<open>std::invalid_argument\<close>; a value that is not an \<^verbatim>\<open>int\<close> throws
  \<^verbatim>\<open>std::out_of_range\<close>.
\<close>

definition isspace :: "char \<Rightarrow> bool" where
  "isspace c = (c \<in> set [CHR 0x20, CHR 0x09, CHR 0x0A, CHR 0x0B, CHR 0x0C, CHR 0x0D])"

definition digit_value :: "char \<Rightarrow> int" where
  "digit_value c = int (of_char c) - 48"

definition digits_value :: "string \<Rightarrow> int" where
  "digits_value ds = foldl (\<lambda>acc c. acc * 10 + digit_value c) 0 ds"

definition stoi :: "string \<Rightarrow> exn + int" where
  "stoi str =
    (let s1 = dropWhile isspace str;
         neg = (take 1 s1 = ''-'');
         s2 = (if take 1 s1 = ''-'' \<or> take 1 s1 = ''+'' then drop 1 s1 else s1);
         ds = takeWhile isdigit s2
     in if ds = [] then Inl invalid_argument
        else let v = (if neg then - digits_value ds else digits_value ds)
             in if int_range v then Inr v else Inl out_of_range)"

section \<open>The interpreter, the external adapter and the debugger\<close>

text \<open>
  A Python object, as the handlers observe it through pybind11: its conversion to JSON
  by \<^verbatim>\<open>pybind11_json\<close> (\<open>None\<close> when the conversion throws), its \<^verbatim>\<open>repr\<close>
  (\<open>None\<close> when its \<^verbatim>\<open>__repr__\<close> raises), its \<^verbatim>\<open>str\<close>, the \<^verbatim>\<open>str\<close> of its type,
  and, for an object that can be iterated and indexed as a mapping, its entries in
  iteration order (\<open>None\<close> for any other object).
  The global scope is a dictionary from names to objects, in insertion order.
\<close>

datatype pyobject =
  PyObject (py_json: "json option") (py_repr: "string option") (py_str: string)
    (py_type: string)
    (py_entries: "(pyobject \<times> pyobject) list option")

type_synonym py_globals = "(string \<times> pyobject) list"

text \<open>
  What a handler can see and change: the global scope of the interpreter, the threads the
  base class knows to be stopped, and, as a record of the effects, the code run in the
  interpreter and the requests forwarded to the external adapter, in order.
\<close>

record world =
  globals :: py_globals
  stopped_threads :: "int set"
  executed :: "string list"
  forwarded :: "json list"

text \<open>
  The two collaborators are parameters of the model. The interpreter runs a piece of
  code in a global scope: it may raise, and it leaves a global scope. The external
  adapter answers a request, and may change the global scope as well.
\<close>

type_synonym interpreter = "string \<Rightarrow> py_globals \<Rightarrow> exn option \<times> py_globals"

type_synonym adapter = "json \<Rightarrow> py_globals \<Rightarrow> json \<times> py_globals"

definition exec :: "interpreter \<Rightarrow> string \<Rightarrow> world \<Rightarrow> exn option \<times> world" where
  "exec interp code w =
    (let (err, g) = interp code (globals w)
     in (err, w\<lparr>globals := g, executed := executed w @ [code]\<rparr>))"

text \<open>
  \<^verbatim>\<open>forward_message\<close> of the base class passes a request to the external adapter and
  returns its reply.
\<close>

definition forward_message :: "adapter \<Rightarrow> json \<Rightarrow> world \<Rightarrow> json \<times> world" where
  "forward_message ad request w =
    (let (rep, g) = ad request (globals w)
     in (rep, w\<lparr>globals := g, forwarded := forwarded w @ [request]\<rparr>))"

record debugger =
  m_debugpy_host :: string
  m_debugpy_port :: string
  m_debugger_config :: json

definition to_json :: "pyobject \<Rightarrow> exn + json" where
  "to_json obj = (case py_json obj of None \<Rightarrow> Inl runtime_error | Some j \<Rightarrow> Inr j)"

definition globals_at :: "py_globals \<Rightarrow> string \<Rightarrow> exn + pyobject" where
  "globals_at g k = (case map_of g k of None \<Rightarrow> Inl error_already_set | Some v \<Rightarrow> Inr v)"

definition py_iter :: "pyobject \<Rightarrow> exn + pyobject list" where
  "py_iter obj =
    (case py_entries obj of None \<Rightarrow> Inl error_already_set | Some es \<Rightarrow> Inr (map fst es))"

definition py_getitem :: "pyobject \<Rightarrow> pyobject \<Rightarrow> exn + pyobject" where
  "py_getitem obj key =
    (case py_entries obj of
       None \<Rightarrow> Inl error_already_set
     | Some es \<Rightarrow> (case map_of es key of None \<Rightarrow> Inl error_already_set | Some v \<Rightarrow> Inr v))"

definition py_contains :: "pyobject \<Rightarrow> pyobject \<Rightarrow> exn + bool" where
  "py_contains obj key =
    (case py_entries obj of
       None \<Rightarrow> Inl error_already_set
     | Some es \<Rightarrow> Inr (key \<in> set (map fst es)))"

section \<open>inspectVariables\<close>

text \<open>
  The value of a variable, as the \<^verbatim>\<open>try\<close> statement of
  \<^verbatim>\<open>inspect_variables_request\<close> computes it. The conversion of the value is the one
  statement inside \<^verbatim>\<open>try\<close>: when it throws, the handler takes the \<^verbatim>\<open>repr\<close> of the
  value instead. The call of \<^verbatim>\<open>py::repr\<close> stands in the \<^verbatim>\<open>catch\<close> clause, where nothing
  guards it: when \<^verbatim>\<open>__repr__\<close> raises, \<^verbatim>\<open>pybind11::error_already_set\<close> leaves the
  handler.
\<close>

definition variable_value :: "pyobject \<Rightarrow> exn + json" where
  "variable_value obj =
    (case to_json obj of
       Inr j \<Rightarrow> Inr j
     | Inl e \<Rightarrow>
         (case py_repr obj of
            Some r \<Rightarrow> Inr (JString r)
          | None \<Rightarrow> Inl error_already_set))"

text \<open>
  The loop of \<^verbatim>\<open>inspect_variables_request\<close> over the global scope. The truncation of
  the type follows the \<^verbatim>\<open>try\<close> statement, outside of it.
\<close>

fun inspect_loop :: "py_globals \<Rightarrow> json list \<Rightarrow> exn + json list" where
  "inspect_loop [] json_vars = Inr json_vars"
| "inspect_loop ((var_name, obj) # variables) json_vars =
     (if keep_variable var_name then
        (let json_var = obj_set [] ''name'' (JString var_name);
             json_var = obj_set json_var ''variablesReference'' (JInt 0)
         in case variable_value obj of
              Inl e \<Rightarrow> Inl e
            | Inr v \<Rightarrow>
                (let json_var = obj_set json_var ''value'' v;
                     var_type = py_type obj;
                     size = length var_type
                 in case substr var_type 8 (size_sub size 10) of
                      Inl e \<Rightarrow> Inl e
                    | Inr var_trunc_type \<Rightarrow>
                        inspect_loop variables
                          (json_vars
                             @ [JObject (obj_set json_var ''type'' (JString var_trunc_type))])))
      else inspect_loop variables json_vars)"

definition inspect_variables_request :: "json \<Rightarrow> world \<Rightarrow> (exn + json) \<times> world" where
  "inspect_variables_request message w =
    (and_then (inspect_loop (globals w) []) (\<lambda>json_vars.
     and_then (json_at message ''seq'') (\<lambda>seq.
     and_then (json_at message ''command'') (\<lambda>command.
     Inr (json_object
       [(''type'', JString ''response''),
        (''request_seq'', seq),
        (''success'', JBool True),
        (''command'', command),
        (''body'', json_object [(''variables'', JArray json_vars)])])))),
     w)"

section \<open>richInspectVariables\<close>

definition var_repr_data :: "string \<Rightarrow> string" where
  "var_repr_data var_name = var_name @ ''_repr_data''"

definition var_repr_metadata :: "string \<Rightarrow> string" where
  "var_repr_metadata var_name = var_name @ ''_repr_metada''"

text \<open>One turn of the loop that copies the rendering into the body of the reply.\<close>

definition rich_step :: "pyobject \<Rightarrow> pyobject \<Rightarrow> pyobject \<Rightarrow> json \<Rightarrow> exn + json" where
  "rich_step key repr_data repr_metadata body =
    (let data_key = py_str key in
     and_then (py_getitem repr_data key) (\<lambda>v.
     and_then (to_json v) (\<lambda>j.
     and_then (json_set2 body ''data'' data_key j) (\<lambda>body.
     and_then (py_contains repr_metadata key) (\<lambda>c.
     if c then
       and_then (py_getitem repr_metadata key) (\<lambda>mv.
       and_then (to_json mv) (\<lambda>mj.
       json_set2 body ''metadata'' data_key mj))
     else Inr body)))))"

fun rich_loop :: "pyobject list \<Rightarrow> pyobject \<Rightarrow> pyobject \<Rightarrow> json \<Rightarrow> exn + json" where
  "rich_loop [] repr_data repr_metadata body = Inr body"
| "rich_loop (key # keys) repr_data repr_metadata body =
     (case rich_step key repr_data repr_metadata body of
        Inl e \<Rightarrow> Inl e
      | Inr body' \<Rightarrow> rich_loop keys repr_data repr_metadata body')"

text \<open>
  The second half of \<^verbatim>\<open>rich_inspect_variables_request\<close>: the reply, assembled from
  the two globals. An empty pair of braces inside an initializer list is the value
  \<open>null\<close>, which the first assignment under a key turns into an object.
\<close>

definition rich_inspect_reply :: "json \<Rightarrow> string \<Rightarrow> py_globals \<Rightarrow> exn + json" where
  "rich_inspect_reply message var_name g =
    and_then (json_at message ''seq'') (\<lambda>seq.
    and_then (json_at message ''command'') (\<lambda>command.
    let reply = json_object
          [(''type'', JString ''response''),
           (''request_seq'', seq),
           (''success'', JBool False),
           (''command'', command)] in
    and_then (globals_at g (var_repr_data var_name)) (\<lambda>repr_data.
    and_then (globals_at g (var_repr_metadata var_name)) (\<lambda>repr_metadata.
    let body = json_object [(''data'', JNull), (''metadata'', JNull)] in
    and_then (py_iter repr_data) (\<lambda>keys.
    and_then (rich_loop keys repr_data repr_metadata body) (\<lambda>body.
    and_then (json_set reply ''body'' body) (\<lambda>reply.
    json_set reply ''success'' (JBool True))))))))"

text \<open>
  The code run in the interpreter when no thread is stopped, and the request forwarded
  when one is. The sum \<^verbatim>\<open>seq+1\<close> is a sum of \<^verbatim>\<open>int\<close>: its overflow, which C++ leaves
  undefined, wraps around here.
\<close>

definition rich_inspect_code :: "string \<Rightarrow> string" where
  "rich_inspect_code var_name =
    ''from IPython import get_ipython;'' @
    var_repr_data var_name @ '','' @ var_repr_metadata var_name @
    ''= get_ipython().display_formatter.format('' @ var_name @ '')''"

definition set_expression_request :: "string \<Rightarrow> int \<Rightarrow> int \<Rightarrow> json" where
  "set_expression_request var_name frame_id seq =
    (let lvalue = var_repr_data var_name @ '','' @ var_repr_metadata var_name;
         code = ''get_ipython().display_formatter.format('' @ var_name @ '')''
     in json_object
          [(''type'', JString ''request''),
           (''command'', JString ''setExpression''),
           (''seq'', JInt (to_int32 (seq + 1))),
           (''arguments'', json_object
              [(''expression'', JString lvalue),
               (''value'', JString code),
               (''frameId'', JInt frame_id)])])"

definition rich_inspect_variables_request ::
  "interpreter \<Rightarrow> adapter \<Rightarrow> json \<Rightarrow> world \<Rightarrow> (exn + json) \<times> world" where
  "rich_inspect_variables_request interp ad message w =
    (case and_then (and_then (json_at message ''arguments'')
                      (\<lambda>a. json_at a ''variableName'')) get_string of
       Inl e \<Rightarrow> (Inl e, w)
     | Inr var_name \<Rightarrow>
         if stopped_threads w = {} then
           (case exec interp (rich_inspect_code var_name) w of
              (Some e, w1) \<Rightarrow> (Inl e, w1)
            | (None, w1) \<Rightarrow> (rich_inspect_reply message var_name (globals w1), w1))
         else
           (case and_then (and_then (json_at message ''arguments'')
                             (\<lambda>a. json_at a ''frameId'')) get_int of
              Inl e \<Rightarrow> (Inl e, w)
            | Inr frame_id \<Rightarrow>
                (case and_then (json_at message ''seq'') get_int of
                   Inl e \<Rightarrow> (Inl e, w)
                 | Inr seq \<Rightarrow>
                     (case forward_message ad (set_expression_request var_name frame_id seq) w of
                        (rep, w1) \<Rightarrow> (rich_inspect_reply message var_name (globals w1), w1)))))"

section \<open>attach and configurationDone\<close>

definition attach_request ::
  "debugger \<Rightarrow> adapter \<Rightarrow> json \<Rightarrow> world \<Rightarrow> (exn + json) \<times> world" where
  "attach_request dbg ad message w =
    (case and_then (stoi (m_debugpy_port dbg)) (\<lambda>port.
          and_then (json_set2 message ''arguments'' ''connect''
                      (json_object
                         [(''host'', JString (m_debugpy_host dbg)),
                          (''port'', JInt port)])) (\<lambda>new_message.
          json_set2 new_message ''arguments'' ''logToFile'' (JBool True))) of
       Inl e \<Rightarrow> (Inl e, w)
     | Inr new_message \<Rightarrow>
         (case forward_message ad new_message w of (rep, w1) \<Rightarrow> (Inr rep, w1)))"

definition configuration_done_request :: "json \<Rightarrow> world \<Rightarrow> (exn + json) \<times> world" where
  "configuration_done_request message w =
    (and_then (and_then (json_at message ''seq'') get_int) (\<lambda>seq.
     and_then (json_at message ''seq'') (\<lambda>request_seq.
     and_then (json_at message ''command'') (\<lambda>command.
     Inr (json_object
       [(''seq'', JInt seq),
        (''type'', JString ''response''),
        (''request_seq'', request_seq),
        (''success'', JBool True),
        (''command'', command)])))),
     w)"

section \<open>Starting debugpy, and stopping\<close>

text \<open>
  What \<^verbatim>\<open>start_debugpy\<close> writes and sends: the lines written to \<^verbatim>\<open>std::clog\<close>, the
  lines appended to the file \<^verbatim>\<open>xeus.log\<close>, and the requests sent to the shell.
\<close>

record effects =
  clog :: "string list"
  xeus_log :: "string list"
  sent_to_shell :: "json list"

definition debugpy_code :: "debugger \<Rightarrow> string option \<Rightarrow> string" where
  "debugpy_code dbg python =
    ''import debugpy;'' @
    (case python of
       None \<Rightarrow> []
     | Some path \<Rightarrow> ''debugpy.configure({'' @ [CHR 0x27] @ ''python'' @ [CHR 0x27] @ '': r''
         @ [CHR 0x27] @ path @ [CHR 0x27] @ ''});'') @
    ''debugpy.listen(('' @ [CHR 0x27] @ m_debugpy_host dbg @ [CHR 0x27] @ '','' @
      m_debugpy_port dbg @ ''))''"

text \<open>
  \<^verbatim>\<open>start_debugpy\<close>. Its parameters are whether the environment variable
  \<^verbatim>\<open>XEUS_LOG\<close> is set, the function \<^verbatim>\<open>dump\<close> of JSON, and the control messenger's
  \<^verbatim>\<open>send_to_shell\<close>, which returns the reply of the interpreter.
\<close>

definition start_debugpy ::
  "debugger \<Rightarrow> bool \<Rightarrow> (json \<Rightarrow> string) \<Rightarrow> (json \<Rightarrow> json) \<Rightarrow> (exn + bool) \<times> effects" where
  "start_debugpy dbg xeus_log_set dump send_to_shell =
    (let out = \<lparr>clog = [],
                xeus_log = (if xeus_log_set
                            then [''===== DEBUGGER CONFIG ====='', dump (m_debugger_config dbg)]
                            else []),
                sent_to_shell = []\<rparr>
     in case (case json_find (m_debugger_config dbg) ''python'' of
                None \<Rightarrow> Inr None
              | Some p \<Rightarrow> and_then (get_string p) (\<lambda>path. Inr (Some path))) of
          Inl e \<Rightarrow> (Inl e, out)
        | Inr python \<Rightarrow>
            (let json_code = JObject [(''code'', JString (debugpy_code dbg python))];
                 rep = send_to_shell json_code;
                 out = out\<lparr>sent_to_shell := [json_code]\<rparr>
             in case and_then (json_ref rep ''status'') get_string of
                  Inl e \<Rightarrow> (Inl e, out)
                | Inr status \<Rightarrow>
                    if status \<noteq> ''ok'' then
                      (case and_then (and_then (json_ref rep ''ename'') get_string) (\<lambda>ename.
                            and_then (and_then (json_ref rep ''evalue'') get_string) (\<lambda>evalue.
                            and_then (and_then (json_ref rep ''traceback'') get_string_vector)
                              (\<lambda>traceback.
                            Inr ([''Exception raised when trying to import debugpy'']
                                 @ traceback @ [ename @ '' - '' @ evalue])))) of
                         Inl e \<Rightarrow> (Inl e, out)
                       | Inr lines \<Rightarrow> (Inr (status = ''ok''), out\<lparr>clog := lines\<rparr>))
                    else (Inr (status = ''ok''), out)))"

text \<open>
  \<^verbatim>\<open>stop\<close>. The two sockets belong to the caller and \<^verbatim>\<open>unbind\<close> belongs to the socket
  library: both are parameters, as is the naming of the end points. \<^verbatim>\<open>stop\<close> catches
  nothing, so an exception of \<^verbatim>\<open>unbind\<close> leaves it at once; the result holds the
  exception, if any, and the header socket and the request socket as they are then.
\<close>

definition stop ::
  "(string \<Rightarrow> string) \<Rightarrow> ('s \<Rightarrow> string \<Rightarrow> exn + 's) \<Rightarrow> 's \<Rightarrow> 's \<Rightarrow> exn option \<times> 's \<times> 's" where
  "stop get_controller_end_point unbind header_socket request_socket =
    (let controller_end_point = get_controller_end_point ''debugger'';
         controller_header_end_point = get_controller_end_point ''debugger_header''
     in case unbind request_socket controller_end_point of
          Inl e \<Rightarrow> (Some e, header_socket, request_socket)
        | Inr request_socket \<Rightarrow>
            (case unbind header_socket controller_header_end_point of
               Inl e \<Rightarrow> (Some e, header_socket, request_socket)
             | Inr header_socket \<Rightarrow> (None, header_socket, request_socket)))"

section \<open>Observations and concrete inputs\<close>

text \<open>
  What the statements below read off a JSON value: whether it is \<open>null\<close> or an object
  (the values that \<^verbatim>\<open>operator[]\<close> accepts on the left of an assignment), the value
  under a key (\<open>null\<close> when there is none), and the entry under a key of the object
  under a key.
\<close>

definition is_container :: "json \<Rightarrow> bool" where
  "is_container j = (case j of JNull \<Rightarrow> True | JObject kvs \<Rightarrow> True | _ \<Rightarrow> False)"

definition json_get :: "json \<Rightarrow> string \<Rightarrow> json" where
  "json_get j k = (case json_find j k of Some v \<Rightarrow> v | None \<Rightarrow> JNull)"

definition entry :: "json \<Rightarrow> string \<Rightarrow> string \<Rightarrow> json option" where
  "entry j k1 k2 = (case json_find j k1 of None \<Rightarrow> None | Some inner \<Rightarrow> json_find inner k2)"

text \<open>The \<^verbatim>\<open>str\<close> of a Python class named \<open>X\<close>.\<close>

definition class_str :: "string \<Rightarrow> string" where
  "class_str X = ''<class '' @ [CHR 0x27] @ X @ [CHR 0x27] @ ''>''"

text \<open>
  The variable descriptor of the data model, \<open>{name, type, value, variablesReference}\<close>,
  that the loop of \<^verbatim>\<open>inspect_variables_request\<close> is compared with, for a variable
  that can be listed: its value converts or its \<^verbatim>\<open>repr\<close> returns, and the \<^verbatim>\<open>str\<close> of
  its type has the eight characters that the handler skips.
\<close>

definition listable :: "pyobject \<Rightarrow> bool" where
  "listable obj = ((py_json obj \<noteq> None \<or> py_repr obj \<noteq> None) \<and> 8 \<le> length (py_type obj))"

definition listed_value :: "pyobject \<Rightarrow> json" where
  "listed_value obj =
    (case py_json obj of
       Some j \<Rightarrow> j
     | None \<Rightarrow> (case py_repr obj of Some r \<Rightarrow> JString r | None \<Rightarrow> JNull))"

definition variable_descriptor :: "string \<Rightarrow> pyobject \<Rightarrow> json" where
  "variable_descriptor var_name obj =
    JObject
      [(''name'', JString var_name),
       (''type'', JString (take (size_sub (length (py_type obj)) 10) (drop 8 (py_type obj)))),
       (''value'', listed_value obj),
       (''variablesReference'', JInt 0)]"

text \<open>
  Concrete inputs: a world with no stopped thread and one with a stopped thread, an
  interpreter that runs any code without effect, an external adapter that answers
  \<open>null\<close> without effect, and requests of the debug protocol.
\<close>

definition idle_world :: world where
  "idle_world = \<lparr>globals = [], stopped_threads = {}, executed = [], forwarded = []\<rparr>"

definition stopped_world :: world where
  "stopped_world = \<lparr>globals = [], stopped_threads = {1}, executed = [], forwarded = []\<rparr>"

definition quiet_interpreter :: interpreter where
  "quiet_interpreter code g = (None, g)"

definition silent_adapter :: adapter where
  "silent_adapter request g = (JNull, g)"

definition rich_request :: "int \<Rightarrow> json" where
  "rich_request seq =
    JObject
      [(''arguments'', JObject [(''frameId'', JInt 3), (''variableName'', JString ''x'')]),
       (''command'', JString ''richInspectVariables''),
       (''seq'', JInt seq),
       (''type'', JString ''request'')]"

definition configuration_done :: "int \<Rightarrow> json" where
  "configuration_done seq =
    JObject [(''command'', JString ''configurationDone''), (''seq'', JInt seq)]"

definition attach :: json where
  "attach =
    JObject
      [(''arguments'', JObject [(''justMyCode'', JBool False)]),
       (''command'', JString ''attach''),
       (''seq'', JInt 5),
       (''type'', JString ''request'')]"

definition session :: debugger where
  "session = \<lparr>m_debugpy_host = ''127.0.0.1'', m_debugpy_port = ''5678'',
               m_debugger_config = JObject []\<rparr>"

definition error_reply :: json where
  "error_reply =
    JObject
      [(''ename'', JString ''ImportError''),
       (''evalue'', JString ''No module named debugpy''),
       (''status'', JString ''error''),
       (''traceback'', JArray [JString ''Traceback'', JString ''ImportError''])]"

definition inspect_request :: json where
  "inspect_request =
    JObject
      [(''command'', JString ''inspectVariables''),
       (''seq'', JInt 3),
       (''type'', JString ''request'')]"

definition example_scope :: py_globals where
  "example_scope =
    [(''x'', PyObject (Some (JInt 1)) (Some ''1'') ''1'' (class_str ''int'') None),
     (''__name__'', PyObject (Some (JString ''__main__''))
        (Some ([CHR 0x27] @ ''__main__'' @ [CHR 0x27])) ''__main__'' (class_str ''str'') None),
     (''_1'', PyObject (Some (JInt 5)) (Some ''5'') ''5'' (class_str ''int'') None)]"

definition function_scope :: py_globals where
  "function_scope =
    [(''f'', PyObject None (Some ''<function f at 0x7f01>'') ''<function f at 0x7f01>''
        (class_str ''function'') None),
     (''y'', PyObject (Some (JInt 2)) (Some ''2'') ''2'' (class_str ''int'') None)]"

text \<open>
  Scopes that end the listing: a variable whose type prints as \<open>Foo\<close>; a variable whose
  value does not convert and whose \<^verbatim>\<open>__repr__\<close> raises, before a variable \<open>y\<close>; a
  variable whose value does not convert and whose type prints as \<open>Foo\<close>, before \<open>y\<close>.
\<close>

definition short_type_scope :: py_globals where
  "short_type_scope = [(''v'', PyObject (Some (JInt 1)) (Some ''1'') ''1'' ''Foo'' None)]"

definition raising_repr_scope :: py_globals where
  "raising_repr_scope =
    [(''b'', PyObject None None ''b'' (class_str ''Broken'') None),
     (''y'', PyObject (Some (JInt 2)) (Some ''2'') ''2'' (class_str ''int'') None)]"

definition fallback_short_type_scope :: py_globals where
  "fallback_short_type_scope =
    [(''g'', PyObject None (Some ''<g>'') ''<g>'' ''Foo'' None),
     (''y'', PyObject (Some (JInt 2)) (Some ''2'') ''2'' (class_str ''int'') None)]"

definition scope_world :: "py_globals \<Rightarrow> world" where
  "scope_world g = \<lparr>globals = g, stopped_threads = {}, executed = [], forwarded = []\<rparr>"

definition example_world :: world where
  "example_world = \<lparr>globals = example_scope, stopped_threads = {}, executed = [],
                     forwarded = []\<rparr>"

definition function_world :: world where
  "function_world = \<lparr>globals = function_scope, stopped_threads = {}, executed = [],
                      forwarded = []\<rparr>"

text \<open>
  A rendering of the variable \<open>x\<close>, as the display formatter returns it: two
  dictionaries from MIME types, held in the two globals of the handler; an interpreter and
  an external adapter that store it there.
\<close>

definition py_string :: "string \<Rightarrow> pyobject" where
  "py_string s =
    PyObject (Some (JString s)) (Some ([CHR 0x27] @ s @ [CHR 0x27])) s (class_str ''str'')
      None"

definition rich_data :: pyobject where
  "rich_data =
    PyObject None (Some ''{...}'') ''{...}'' (class_str ''dict'')
      (Some [(py_string ''text/plain'', py_string ''1''),
             (py_string ''text/html'', py_string ''<b>1</b>'')])"

definition rich_metadata :: pyobject where
  "rich_metadata =
    PyObject None (Some ''{...}'') ''{...}'' (class_str ''dict'')
      (Some [(py_string ''text/html'', py_string ''isolated'')])"

definition rich_globals :: py_globals where
  "rich_globals = [(''x_repr_data'', rich_data), (''x_repr_metada'', rich_metadata)]"

definition formatting_interpreter :: interpreter where
  "formatting_interpreter code g = (None, rich_globals @ g)"

definition formatting_adapter :: adapter where
  "formatting_adapter request g = (JNull, rich_globals @ g)"

text \<open>
  The socket library, for a socket given by the list of the end points it is bound to:
  \<^verbatim>\<open>zmq_unbind\<close> fails with \<^verbatim>\<open>ENOENT\<close> on an end point that was not bound, and
  \<^verbatim>\<open>socket_t::unbind\<close> throws \<^verbatim>\<open>zmq::error_t\<close> when \<^verbatim>\<open>zmq_unbind\<close> fails.
\<close>

definition zmq_unbind :: "string list \<Rightarrow> string \<Rightarrow> exn + string list" where
  "zmq_unbind bound end_point =
    (if end_point \<in> set bound then Inr (removeAll end_point bound) else Inl zmq_error)"

definition inproc_end_point :: "string \<Rightarrow> string" where
  "inproc_end_point name = ''inproc://'' @ name"

section \<open>The variable filter: properties\<close>

lemma take2_prefix: "(take 2 n = ''_i'') = (\<exists>r. n = ''_i'' @ r)"
proof
  assume h: "take 2 n = ''_i''"
  have "n = take 2 n @ drop 2 n" by simp
  with h show "\<exists>r. n = ''_i'' @ r" by metis
next
  assume "\<exists>r. n = ''_i'' @ r"
  then show "take 2 n = ''_i''" by auto
qed

lemma underscore_digit_form:
  "(string_at n 0 = CHR ''_'' \<and> isdigit (string_at n 1)) =
   (\<exists>d r. n = CHR ''_'' # d # r \<and> isdigit d)"
proof (cases n)
  case Nil
  then show ?thesis by (simp add: string_at_def)
next
  case (Cons a m)
  then show ?thesis
    by (cases m) (auto simp: string_at_def isdigit_def)
qed

text \<open>
  Claim C1. \<^verbatim>\<open>keep_variable\<close> accepts a name exactly when the name does not start with
  the two characters \<open>_i\<close>, is not an underscore followed immediately by a digit, and is
  not a member of the excluded list; so it rejects every member of the excluded list
  (\<open>__\<close> among them) and \<open>_1\<close>, and it accepts \<open>my_var\<close>.
\<close>

theorem keep_variable_iff:
  "(keep_variable n =
      (\<not> (\<exists>r. n = ''_i'' @ r) \<and>
       \<not> (\<exists>d r. n = CHR ''_'' # d # r \<and> isdigit d) \<and>
       n \<notin> set get_excluded_variables))
   \<and> (\<forall>e \<in> set get_excluded_variables. keep_variable e = False)
   \<and> ''__'' \<in> set get_excluded_variables
   \<and> keep_variable ''__'' = False
   \<and> keep_variable ''_1'' = False
   \<and> keep_variable ''my_var'' = True"
proof -
  have iff: "\<And>m. keep_variable m =
      (\<not> (\<exists>r. m = ''_i'' @ r) \<and>
       \<not> (\<exists>d r. m = CHR ''_'' # d # r \<and> isdigit d) \<and>
       m \<notin> set get_excluded_variables)"
    unfolding keep_variable_def Let_def take2_prefix underscore_digit_form by blast
  have excl: "\<forall>e \<in> set get_excluded_variables. keep_variable e = False"
    using iff by blast
  have mem: "''__'' \<in> set get_excluded_variables"
    by (simp add: get_excluded_variables_def)
  have k1: "keep_variable ''_1'' = False"
    by (simp add: keep_variable_def string_at_def isdigit_def)
  have k2: "keep_variable ''my_var'' = True"
    by (simp add: keep_variable_def string_at_def isdigit_def get_excluded_variables_def)
  have k0: "keep_variable ''__'' = False"
    using excl mem by (rule bspec)
  show ?thesis
    by (intro conjI) (rule iff excl mem k0 k1 k2)+
qed

theorem keep_variable_iff_witness:
  "''display'' \<in> set get_excluded_variables \<and> keep_variable ''display'' = False
   \<and> keep_variable ''_i12'' = False \<and> keep_variable ''_7x'' = False
   \<and> keep_variable ''x'' = True"
proof -
  have m: "''display'' \<in> set get_excluded_variables"
    by (simp add: get_excluded_variables_def)
  have a: "keep_variable ''display'' = False"
    using keep_variable_iff [of "''display''"] m by (simp only: simp_thms)
  have b: "keep_variable ''_i12'' = False"
    using keep_variable_iff [of "''_i12''"] by simp
  have c: "keep_variable ''_7x'' = False"
    using keep_variable_iff [of "''_7x''"] by (simp add: isdigit_def)
  have d: "keep_variable ''x'' = True"
    using keep_variable_iff [of "''x''"] by (simp add: get_excluded_variables_def)
  show ?thesis
    by (intro conjI) (rule m a b c d)+
qed

section \<open>Basic facts\<close>

lemma to_int32_id: "int_range n \<Longrightarrow> to_int32 n = n"
  by (simp add: int_range_def to_int32_def)

lemma and_then_Inr [simp]: "and_then (Inr x) f = f x"
  by (simp add: and_then_def)

lemma and_then_Inl [simp]: "and_then (Inl e) f = Inl e"
  by (simp add: and_then_def)

lemma map_of_obj_set: "map_of (obj_set kvs k v) = (map_of kvs)(k \<mapsto> v)"
  by (induction kvs) (auto simp: fun_upd_twist)

lemma exec_result:
  "exec interp code w = (err, w1) \<Longrightarrow>
     executed w1 = executed w @ [code] \<and> forwarded w1 = forwarded w
     \<and> stopped_threads w1 = stopped_threads w
     \<and> globals w1 = snd (interp code (globals w)) \<and> err = fst (interp code (globals w))"
  by (auto simp: exec_def split: prod.splits)

lemma forward_message_result:
  "forward_message ad request w = (rep, w1) \<Longrightarrow>
     forwarded w1 = forwarded w @ [request] \<and> executed w1 = executed w
     \<and> stopped_threads w1 = stopped_threads w
     \<and> globals w1 = snd (ad request (globals w)) \<and> rep = fst (ad request (globals w))"
  by (auto simp: forward_message_def split: prod.splits)

lemma json_at_find: "(json_at j k = Inr v) = (json_find j k = Some v)"
  by (auto simp: json_at_def json_find_def split: json.splits option.splits)

lemma json_ref_get: "is_container j \<Longrightarrow> json_ref j k = Inr (json_get j k)"
  by (auto simp: is_container_def json_ref_def json_get_def json_find_def
      split: json.splits option.splits)

lemma json_at_ref: "json_at j k = Inr v \<Longrightarrow> json_ref j k = Inr v"
  by (auto simp: json_at_def json_ref_def split: json.splits option.splits)

lemma json_set_find:
  assumes "is_container j"
  shows "\<exists>j'. json_set j k v = Inr j' \<and> is_container j'
           \<and> json_find j' = (json_find j)(k \<mapsto> v)"
  using assms
  by (cases j) (auto simp: is_container_def json_set_def json_find_def map_of_obj_set)

lemma json_set2_find:
  assumes "is_container j" and "is_container (json_get j k1)"
  shows "\<exists>j' inner. json_set2 j k1 k2 v = Inr j' \<and> is_container j'
           \<and> json_find j' = (json_find j)(k1 \<mapsto> inner) \<and> is_container inner
           \<and> json_find inner = (json_find (json_get j k1))(k2 \<mapsto> v)"
proof -
  obtain inner where i: "json_set (json_get j k1) k2 v = Inr inner" "is_container inner"
      "json_find inner = (json_find (json_get j k1))(k2 \<mapsto> v)"
    using json_set_find [OF assms(2)] by blast
  obtain j' where j: "json_set j k1 inner = Inr j'" "is_container j'"
      "json_find j' = (json_find j)(k1 \<mapsto> inner)"
    using json_set_find [OF assms(1)] by blast
  have "json_set2 j k1 k2 v = Inr j'"
    by (simp add: json_set2_def json_ref_get [OF assms(1)] i j)
  with i j show ?thesis by blast
qed

lemma get_strings_map: "get_strings (map JString ss) = Inr ss"
  by (induction ss) (simp_all add: get_string_def)

lemma stoi_5678: "stoi ''5678'' = Inr 5678"
  by (simp add: stoi_def isspace_def isdigit_def digits_value_def digit_value_def int_range_def)

section \<open>configurationDone: properties\<close>

text \<open>
  Claim C5, as stated, fails: the handler reads \<open>seq\<close> into an \<^verbatim>\<open>int\<close>, so for the
  request with \<open>seq = 4294967303\<close> the reply has \<open>seq = 7\<close> beside
  \<open>request_seq = 4294967303\<close>, and is not the object of the claim.
\<close>

theorem configuration_done_counterexample:
  "configuration_done_request (configuration_done 4294967303) idle_world =
     (Inr (JObject
        [(''command'', JString ''configurationDone''),
         (''request_seq'', JInt 4294967303),
         (''seq'', JInt 7),
         (''success'', JBool True),
         (''type'', JString ''response'')]), idle_world)
   \<and> JInt 7 \<noteq> JInt 4294967303"
  by (simp add: configuration_done_request_def configuration_done_def get_int_def
      to_int32_def json_object_def json_at_def)

text \<open>
  Claim C5, amended. For every \<open>configurationDone\<close> request whose \<open>seq\<close> is a value
  \<open>s\<close> of an \<^verbatim>\<open>int\<close>, the handler returns exactly the object
  \<open>{seq: s, type: response, request_seq: s, success: true, command: configurationDone}\<close>,
  which has no body, and it leaves the world as it is: it forwards nothing.
\<close>

theorem configuration_done_reply:
  assumes "json_at message ''seq'' = Inr (JInt s)"
    and "int_range s"
    and "json_at message ''command'' = Inr (JString ''configurationDone'')"
  shows "configuration_done_request message w =
      (Inr (JObject
         [(''command'', JString ''configurationDone''),
          (''request_seq'', JInt s),
          (''seq'', JInt s),
          (''success'', JBool True),
          (''type'', JString ''response'')]), w)"
  using assms
  by (simp add: configuration_done_request_def get_int_def to_int32_id json_object_def)

theorem configuration_done_reply_witness:
  "configuration_done_request (configuration_done 7) idle_world =
      (Inr (JObject
         [(''command'', JString ''configurationDone''),
          (''request_seq'', JInt 7),
          (''seq'', JInt 7),
          (''success'', JBool True),
          (''type'', JString ''response'')]), idle_world)
   \<and> forwarded (snd (configuration_done_request (configuration_done 7) idle_world)) = []"
proof -
  have a: "json_at (configuration_done 7) ''seq'' = Inr (JInt 7)"
    by (simp add: configuration_done_def json_at_def)
  have b: "int_range 7"
    by (simp add: int_range_def)
  have c: "json_at (configuration_done 7) ''command'' = Inr (JString ''configurationDone'')"
    by (simp add: configuration_done_def json_at_def)
  show ?thesis
    using configuration_done_reply [OF a b c, of idle_world]
    by (simp add: idle_world_def)
qed

section \<open>richInspectVariables: the two paths\<close>

lemma set_expression_request_fields:
  "json_at (set_expression_request var_name frame_id seq) ''command''
     = Inr (JString ''setExpression'')
   \<and> json_at (set_expression_request var_name frame_id seq) ''seq''
     = Inr (JInt (to_int32 (seq + 1)))
   \<and> and_then (json_at (set_expression_request var_name frame_id seq) ''arguments'')
        (\<lambda>a. json_at a ''frameId'') = Inr (JInt frame_id)
   \<and> and_then (json_at (set_expression_request var_name frame_id seq) ''arguments'')
        (\<lambda>a. json_at a ''expression'') =
          Inr (JString (var_repr_data var_name @ '','' @ var_repr_metadata var_name))"
  by (simp add: set_expression_request_def json_object_def json_at_def)

lemma rich_not_stopped:
  assumes "stopped_threads w = {}"
  shows "forwarded (snd (rich_inspect_variables_request interp ad message w)) = forwarded w"
  using assms
  by (auto simp: rich_inspect_variables_request_def dest: exec_result
           split: sum.splits prod.splits option.splits)

lemma rich_not_stopped_exec:
  assumes "stopped_threads w = {}"
    and "json_at message ''arguments'' = Inr args"
    and "json_at args ''variableName'' = Inr (JString var_name)"
  shows "executed (snd (rich_inspect_variables_request interp ad message w))
         = executed w @ [rich_inspect_code var_name]"
  using assms
  by (auto simp: rich_inspect_variables_request_def get_string_def dest: exec_result
           split: sum.splits prod.splits option.splits)

lemma rich_stopped:
  assumes "stopped_threads w \<noteq> {}"
    and "json_at message ''arguments'' = Inr args"
    and "json_at args ''variableName'' = Inr (JString var_name)"
    and "json_at args ''frameId'' = Inr (JInt f)"
    and "json_at message ''seq'' = Inr (JInt s)"
  shows "forwarded (snd (rich_inspect_variables_request interp ad message w))
         = forwarded w @ [set_expression_request var_name (to_int32 f) (to_int32 s)]
       \<and> executed (snd (rich_inspect_variables_request interp ad message w)) = executed w"
  using assms
  by (auto simp: rich_inspect_variables_request_def get_string_def get_int_def
           dest: forward_message_result split: sum.splits prod.splits option.splits)

lemma rich_request_fields:
  "json_at (rich_request seq) ''arguments''
     = Inr (JObject [(''frameId'', JInt 3), (''variableName'', JString ''x'')])
   \<and> json_at (JObject [(''frameId'', JInt 3), (''variableName'', JString ''x'')])
       ''variableName'' = Inr (JString ''x'')
   \<and> json_at (JObject [(''frameId'', JInt 3), (''variableName'', JString ''x'')])
       ''frameId'' = Inr (JInt 3)
   \<and> json_at (rich_request seq) ''seq'' = Inr (JInt seq)
   \<and> json_at (rich_request seq) ''command'' = Inr (JString ''richInspectVariables'')"
  by (simp add: rich_request_def json_at_def)

text \<open>
  Claim C2, as stated, fails in its second half: the handler reads \<open>seq\<close> into an
  \<^verbatim>\<open>int\<close> before it adds one. For the request with \<open>seq = 4294967296\<close>, received while
  a thread is stopped, the one forwarded request has \<open>seq = 1\<close>, not \<open>4294967297\<close>.
\<close>

theorem rich_inspect_seq_counterexample:
  "forwarded (snd (rich_inspect_variables_request quiet_interpreter silent_adapter
       (rich_request 4294967296) stopped_world)) =
     [JObject
        [(''arguments'', JObject
            [(''expression'', JString ''x_repr_data,x_repr_metada''),
             (''frameId'', JInt 3),
             (''value'', JString ''get_ipython().display_formatter.format(x)'')]),
         (''command'', JString ''setExpression''),
         (''seq'', JInt 1),
         (''type'', JString ''request'')]]
   \<and> JInt 1 \<noteq> JInt (4294967296 + 1)"
proof -
  have ne: "stopped_threads stopped_world \<noteq> {}"
    by (simp add: stopped_world_def)
  have "forwarded (snd (rich_inspect_variables_request quiet_interpreter silent_adapter
       (rich_request 4294967296) stopped_world)) =
       forwarded stopped_world
         @ [set_expression_request ''x'' (to_int32 3) (to_int32 4294967296)]"
    using rich_stopped [OF ne, of "rich_request 4294967296"] rich_request_fields
    by blast
  then show ?thesis
    by (simp add: stopped_world_def set_expression_request_def to_int32_def json_object_def
        var_repr_data_def var_repr_metadata_def)
qed

text \<open>
  Claim C2, amended. For a \<open>richInspectVariables\<close> request that names a variable: if no
  thread is stopped, the handler runs the formatting code in the interpreter and forwards
  nothing to the external adapter; if a thread is stopped, it runs nothing in the
  interpreter and forwards exactly one request, a \<open>setExpression\<close>, whose \<open>seq\<close> is the
  \<open>seq\<close> of the request plus one and whose \<open>frameId\<close> is the \<open>frameId\<close> of the
  request, provided that \<open>seq\<close>, \<open>seq + 1\<close> and \<open>frameId\<close> are values of an \<^verbatim>\<open>int\<close>.
\<close>

theorem rich_inspect_paths:
  assumes "json_at message ''arguments'' = Inr args"
    and "json_at args ''variableName'' = Inr (JString var_name)"
  shows "(stopped_threads w = {} \<longrightarrow>
            executed (snd (rich_inspect_variables_request interp ad message w))
              = executed w @ [rich_inspect_code var_name]
            \<and> forwarded (snd (rich_inspect_variables_request interp ad message w))
              = forwarded w)
       \<and> (stopped_threads w \<noteq> {}
            \<and> json_at args ''frameId'' = Inr (JInt f) \<and> json_at message ''seq'' = Inr (JInt s)
            \<and> int_range f \<and> int_range s \<and> int_range (s + 1) \<longrightarrow>
            executed (snd (rich_inspect_variables_request interp ad message w)) = executed w
            \<and> (\<exists>request.
                 forwarded (snd (rich_inspect_variables_request interp ad message w))
                   = forwarded w @ [request]
                 \<and> json_at request ''command'' = Inr (JString ''setExpression'')
                 \<and> json_at request ''seq'' = Inr (JInt (s + 1))
                 \<and> and_then (json_at request ''arguments'') (\<lambda>a. json_at a ''frameId'')
                     = Inr (JInt f)))"
proof (intro conjI impI)
  assume "stopped_threads w = {}"
  then show "executed (snd (rich_inspect_variables_request interp ad message w))
      = executed w @ [rich_inspect_code var_name]"
    using assms by (rule rich_not_stopped_exec)
next
  assume "stopped_threads w = {}"
  then show "forwarded (snd (rich_inspect_variables_request interp ad message w)) = forwarded w"
    by (rule rich_not_stopped)
next
  assume h: "stopped_threads w \<noteq> {}
            \<and> json_at args ''frameId'' = Inr (JInt f) \<and> json_at message ''seq'' = Inr (JInt s)
            \<and> int_range f \<and> int_range s \<and> int_range (s + 1)"
  then show "executed (snd (rich_inspect_variables_request interp ad message w)) = executed w"
    using assms rich_stopped [of w message args var_name f s interp ad] by blast
next
  assume h: "stopped_threads w \<noteq> {}
            \<and> json_at args ''frameId'' = Inr (JInt f) \<and> json_at message ''seq'' = Inr (JInt s)
            \<and> int_range f \<and> int_range s \<and> int_range (s + 1)"
  then have fw: "forwarded (snd (rich_inspect_variables_request interp ad message w))
         = forwarded w @ [set_expression_request var_name (to_int32 f) (to_int32 s)]"
    using assms rich_stopped [of w message args var_name f s interp ad] by blast
  from h have ids: "to_int32 f = f" "to_int32 s = s" "to_int32 (s + 1) = s + 1"
    by (simp_all add: to_int32_id)
  show "\<exists>request.
          forwarded (snd (rich_inspect_variables_request interp ad message w))
            = forwarded w @ [request]
          \<and> json_at request ''command'' = Inr (JString ''setExpression'')
          \<and> json_at request ''seq'' = Inr (JInt (s + 1))
          \<and> and_then (json_at request ''arguments'') (\<lambda>a. json_at a ''frameId'')
              = Inr (JInt f)"
    using fw set_expression_request_fields [of var_name f s] ids
    by (intro exI [of _ "set_expression_request var_name f s"]) simp
qed

theorem rich_inspect_paths_witness:
  "executed (snd (rich_inspect_variables_request quiet_interpreter silent_adapter
       (rich_request 7) idle_world)) = [rich_inspect_code ''x'']
   \<and> forwarded (snd (rich_inspect_variables_request quiet_interpreter silent_adapter
       (rich_request 7) idle_world)) = []
   \<and> executed (snd (rich_inspect_variables_request quiet_interpreter silent_adapter
       (rich_request 7) stopped_world)) = []
   \<and> (\<exists>request.
        forwarded (snd (rich_inspect_variables_request quiet_interpreter silent_adapter
          (rich_request 7) stopped_world)) = [request]
        \<and> json_at request ''command'' = Inr (JString ''setExpression'')
        \<and> json_at request ''seq'' = Inr (JInt 8)
        \<and> and_then (json_at request ''arguments'') (\<lambda>a. json_at a ''frameId'')
            = Inr (JInt 3))"
proof -
  note f = rich_request_fields [of 7]
  have a: "json_at (rich_request 7) ''arguments''
      = Inr (JObject [(''frameId'', JInt 3), (''variableName'', JString ''x'')])"
    using f by blast
  have b: "json_at (JObject [(''frameId'', JInt 3), (''variableName'', JString ''x'')])
      ''variableName'' = Inr (JString ''x'')"
    using f by blast
  have r: "int_range 3 \<and> int_range 7 \<and> int_range (7 + 1)"
    by (simp add: int_range_def)
  have i: "stopped_threads idle_world = {} \<and> executed idle_world = []
      \<and> forwarded idle_world = []"
    by (simp add: idle_world_def)
  have s: "stopped_threads stopped_world \<noteq> {} \<and> executed stopped_world = []
      \<and> forwarded stopped_world = []"
    by (simp add: stopped_world_def)
  show ?thesis
    using rich_inspect_paths [OF a b, where w = idle_world and interp = quiet_interpreter
          and ad = silent_adapter and f = 3 and s = 7]
      rich_inspect_paths [OF a b, where w = stopped_world and interp = quiet_interpreter
          and ad = silent_adapter and f = 3 and s = 7]
      f r i s
    by simp
qed

section \<open>stop: properties\<close>

text \<open>
  Claim C3, as stated, fails: \<^verbatim>\<open>stop\<close> has no handler, so it treats an exception of
  \<^verbatim>\<open>unbind\<close> as fatal. With the socket library's \<^verbatim>\<open>unbind\<close>, the first call unbinds
  both end points and the second call, on the unbound sockets, ends with
  \<^verbatim>\<open>zmq::error_t\<close>.
\<close>

theorem stop_second_call_counterexample:
  "stop inproc_end_point zmq_unbind
      [inproc_end_point ''debugger_header''] [inproc_end_point ''debugger'']
     = (None, [], [])
   \<and> stop inproc_end_point zmq_unbind [] [] = (Some zmq_error, [], [])"
  by (simp add: stop_def zmq_unbind_def inproc_end_point_def)

text \<open>
  Claim C3, amended. \<^verbatim>\<open>stop\<close> unbinds the request end point and then the header end
  point, and handles no error: it completes without error exactly when both calls of
  \<^verbatim>\<open>unbind\<close> do, and an exception of either call, such as the one the socket library
  throws for an end point that is not bound, leaves \<^verbatim>\<open>stop\<close> as it is. A second call in
  a row completes only if the library accepts to unbind an unbound end point.
\<close>

theorem stop_propagates:
  "(fst (stop ep unbind h r) = None) =
     (\<exists>r' h'. unbind r (ep ''debugger'') = Inr r' \<and> unbind h (ep ''debugger_header'') = Inr h'
        \<and> stop ep unbind h r = (None, h', r'))
   \<and> (\<forall>e. unbind r (ep ''debugger'') = Inl e \<longrightarrow> stop ep unbind h r = (Some e, h, r))
   \<and> (\<forall>e r'. unbind r (ep ''debugger'') = Inr r' \<and> unbind h (ep ''debugger_header'') = Inl e
        \<longrightarrow> stop ep unbind h r = (Some e, h, r'))"
  by (auto simp: stop_def split: sum.splits)

theorem stop_propagates_witness:
  "fst (stop inproc_end_point zmq_unbind
      [inproc_end_point ''debugger_header''] [inproc_end_point ''debugger'']) = None
   \<and> stop inproc_end_point zmq_unbind [inproc_end_point ''debugger_header''] []
     = (Some zmq_error, [inproc_end_point ''debugger_header''], [])
   \<and> stop inproc_end_point zmq_unbind [] [inproc_end_point ''debugger'']
     = (Some zmq_error, [], [])"
proof -
  have a: "zmq_unbind [inproc_end_point ''debugger''] (inproc_end_point ''debugger'') = Inr []"
    by (simp add: zmq_unbind_def)
  have b: "zmq_unbind [inproc_end_point ''debugger_header'']
      (inproc_end_point ''debugger_header'') = Inr []"
    by (simp add: zmq_unbind_def)
  have c: "zmq_unbind [] (inproc_end_point ''debugger'') = Inl zmq_error"
    by (simp add: zmq_unbind_def)
  have d: "zmq_unbind [] (inproc_end_point ''debugger_header'') = Inl zmq_error"
    by (simp add: zmq_unbind_def)
  have e: "stop inproc_end_point zmq_unbind
      [inproc_end_point ''debugger_header''] [inproc_end_point ''debugger'']
     = (None, [], [])"
    by (simp add: stop_def zmq_unbind_def inproc_end_point_def)
  show ?thesis
    using stop_propagates [of inproc_end_point zmq_unbind
        "[inproc_end_point ''debugger_header'']" "[inproc_end_point ''debugger'']"]
      stop_propagates [of inproc_end_point zmq_unbind
        "[inproc_end_point ''debugger_header'']" "[]"]
      stop_propagates [of inproc_end_point zmq_unbind "[]" "[inproc_end_point ''debugger'']"]
      a b c d e
    by simp
qed

section \<open>attach: properties\<close>

text \<open>
  Claim C4. For an \<open>attach\<close> request (an object whose \<open>arguments\<close>, if any, are an
  object) in a session whose port string converts to the number \<open>port\<close>, the handler
  forwards exactly one request: a copy of the incoming one in which
  \<open>arguments.connect\<close> is the object of the session's host and the number \<open>port\<close>,
  \<open>arguments.logToFile\<close> is \<open>true\<close>, and everything else is unchanged. What the handler
  returns is the reply of the external adapter to that request.
\<close>

theorem attach_request_forwards:
  assumes "stoi (m_debugpy_port dbg) = Inr port"
    and "is_container message"
    and "is_container (json_get message ''arguments'')"
  shows "\<exists>new_message arguments.
      fst (attach_request dbg ad message w) = Inr (fst (ad new_message (globals w)))
      \<and> forwarded (snd (attach_request dbg ad message w)) = forwarded w @ [new_message]
      \<and> json_at new_message ''arguments'' = Inr arguments
      \<and> json_at arguments ''connect'' =
          Inr (JObject [(''host'', JString (m_debugpy_host dbg)), (''port'', JInt port)])
      \<and> json_at arguments ''logToFile'' = Inr (JBool True)
      \<and> (\<forall>k. k \<noteq> ''arguments'' \<longrightarrow> json_find new_message k = json_find message k)
      \<and> (\<forall>k. k \<noteq> ''connect'' \<and> k \<noteq> ''logToFile'' \<longrightarrow>
            json_find arguments k = json_find (json_get message ''arguments'') k)"
proof -
  let ?connect = "json_object [(''host'', JString (m_debugpy_host dbg)), (''port'', JInt port)]"
  have c: "?connect = JObject [(''host'', JString (m_debugpy_host dbg)), (''port'', JInt port)]"
    by (simp add: json_object_def)
  obtain m1 a1 where m1: "json_set2 message ''arguments'' ''connect'' ?connect = Inr m1"
      "is_container m1" "json_find m1 = (json_find message)(''arguments'' \<mapsto> a1)"
      "is_container a1"
      "json_find a1 = (json_find (json_get message ''arguments''))(''connect'' \<mapsto> ?connect)"
    using json_set2_find [OF assms(2) assms(3)] by blast
  have g1: "json_get m1 ''arguments'' = a1"
    by (simp add: json_get_def m1(3))
  obtain m2 a2 where m2: "json_set2 m1 ''arguments'' ''logToFile'' (JBool True) = Inr m2"
      "is_container m2" "json_find m2 = (json_find m1)(''arguments'' \<mapsto> a2)"
      "is_container a2"
      "json_find a2 = (json_find (json_get m1 ''arguments''))(''logToFile'' \<mapsto> JBool True)"
    using json_set2_find [OF m1(2), of "''arguments''"] m1(4) g1 by metis
  have res: "attach_request dbg ad message w =
      (case forward_message ad m2 w of (rep, w1) \<Rightarrow> (Inr rep, w1))"
    by (simp add: attach_request_def assms(1) m1(1) m2(1))
  obtain rep w1 where fm: "forward_message ad m2 w = (rep, w1)"
    by (cases "forward_message ad m2 w")
  note fr = forward_message_result [OF fm]
  have "fst (attach_request dbg ad message w) = Inr (fst (ad m2 (globals w)))"
    using res fm fr by simp
  moreover have "forwarded (snd (attach_request dbg ad message w)) = forwarded w @ [m2]"
    using res fm fr by simp
  moreover have "json_at m2 ''arguments'' = Inr a2"
    by (simp add: json_at_find m2(3))
  moreover have "json_at a2 ''connect'' =
          Inr (JObject [(''host'', JString (m_debugpy_host dbg)), (''port'', JInt port)])"
    by (simp add: json_at_find m2(5) g1 m1(5) c)
  moreover have "json_at a2 ''logToFile'' = Inr (JBool True)"
    by (simp add: json_at_find m2(5))
  moreover have "\<forall>k. k \<noteq> ''arguments'' \<longrightarrow> json_find m2 k = json_find message k"
    by (simp add: m2(3) m1(3))
  moreover have "\<forall>k. k \<noteq> ''connect'' \<and> k \<noteq> ''logToFile'' \<longrightarrow>
            json_find a2 k = json_find (json_get message ''arguments'') k"
    by (simp add: m2(5) g1 m1(5))
  ultimately show ?thesis by blast
qed


theorem attach_request_forwards_witness:
  "\<exists>new_message arguments.
      fst (attach_request session silent_adapter attach idle_world) = Inr JNull
      \<and> forwarded (snd (attach_request session silent_adapter attach idle_world)) = [new_message]
      \<and> json_at new_message ''arguments'' = Inr arguments
      \<and> json_at arguments ''connect'' =
          Inr (JObject [(''host'', JString ''127.0.0.1''), (''port'', JInt 5678)])
      \<and> json_at arguments ''logToFile'' = Inr (JBool True)
      \<and> json_find arguments ''justMyCode'' = Some (JBool False)
      \<and> json_find new_message ''command'' = Some (JString ''attach'')"
proof -
  have a: "stoi (m_debugpy_port session) = Inr 5678"
    by (simp add: session_def stoi_5678)
  have b: "is_container attach"
    by (simp add: attach_def is_container_def)
  have c: "is_container (json_get attach ''arguments'')"
    by (simp add: attach_def is_container_def json_get_def json_find_def)
  have d: "json_find (json_get attach ''arguments'') ''justMyCode'' = Some (JBool False)"
    by (simp add: attach_def json_get_def json_find_def)
  have e: "json_find attach ''command'' = Some (JString ''attach'')"
    by (simp add: attach_def json_find_def)
  have f: "m_debugpy_host session = ''127.0.0.1'' \<and> forwarded idle_world = []"
    by (simp add: session_def idle_world_def)
  obtain new_message arguments where n:
      "fst (attach_request session silent_adapter attach idle_world)
         = Inr (fst (silent_adapter new_message (globals idle_world)))"
      "forwarded (snd (attach_request session silent_adapter attach idle_world))
         = forwarded idle_world @ [new_message]"
      "json_at new_message ''arguments'' = Inr arguments"
      "json_at arguments ''connect'' =
          Inr (JObject [(''host'', JString (m_debugpy_host session)), (''port'', JInt 5678)])"
      "json_at arguments ''logToFile'' = Inr (JBool True)"
      "\<forall>k. k \<noteq> ''arguments'' \<longrightarrow> json_find new_message k = json_find attach k"
      "\<forall>k. k \<noteq> ''connect'' \<and> k \<noteq> ''logToFile'' \<longrightarrow>
            json_find arguments k = json_find (json_get attach ''arguments'') k"
    using attach_request_forwards [OF a b c, of silent_adapter idle_world] by blast
  have "json_find arguments ''justMyCode'' = Some (JBool False)"
    using n(7) d by simp
  moreover have "json_find new_message ''command'' = Some (JString ''attach'')"
    using n(6) e by simp
  moreover have "fst (attach_request session silent_adapter attach idle_world) = Inr JNull"
    using n(1) by (simp add: silent_adapter_def)
  ultimately show ?thesis
    using n f by auto
qed

section \<open>Starting debugpy: properties\<close>

text \<open>
  Claim C8. \<^verbatim>\<open>start_debugpy\<close> sends one request to the shell. When the reply has a
  status, and for a status other than \<open>ok\<close> also an exception name, an exception value
  and a traceback, \<^verbatim>\<open>start_debugpy\<close> returns \<open>true\<close> exactly when the status is \<open>ok\<close>;
  for any other status it has written to \<^verbatim>\<open>std::clog\<close>, by the time it returns
  \<open>false\<close>, every line of the traceback and the line of the exception name and value.
\<close>

theorem start_debugpy_status:
  assumes "json_find (m_debugger_config dbg) ''python'' = map_option JString python"
    and "send_to_shell (JObject [(''code'', JString (debugpy_code dbg python))]) = rep"
    and "json_at rep ''status'' = Inr (JString status)"
    and "status \<noteq> ''ok'' \<longrightarrow>
           json_at rep ''ename'' = Inr (JString ename)
           \<and> json_at rep ''evalue'' = Inr (JString evalue)
           \<and> json_at rep ''traceback'' = Inr (JArray (map JString traceback))"
  shows "fst (start_debugpy dbg xeus_log_set dump send_to_shell) = Inr (status = ''ok'')
     \<and> sent_to_shell (snd (start_debugpy dbg xeus_log_set dump send_to_shell))
         = [JObject [(''code'', JString (debugpy_code dbg python))]]
     \<and> (status \<noteq> ''ok'' \<longrightarrow>
          clog (snd (start_debugpy dbg xeus_log_set dump send_to_shell))
            = [''Exception raised when trying to import debugpy''] @ traceback
              @ [ename @ '' - '' @ evalue])
     \<and> (status = ''ok'' \<longrightarrow>
          clog (snd (start_debugpy dbg xeus_log_set dump send_to_shell)) = [])"
proof (cases "status = ''ok''")
  case True
  then show ?thesis
    using assms(1,2,3)
    by (cases python)
       (simp_all add: start_debugpy_def Let_def json_at_ref get_string_def)
next
  case False
  then show ?thesis
    using assms
    by (cases python)
       (simp_all add: start_debugpy_def Let_def json_at_ref get_string_def
          get_string_vector_def get_strings_map)
qed

theorem start_debugpy_status_witness:
  "fst (start_debugpy session False (\<lambda>j. []) (\<lambda>request. error_reply)) = Inr False
   \<and> clog (snd (start_debugpy session False (\<lambda>j. []) (\<lambda>request. error_reply)))
       = [''Exception raised when trying to import debugpy'', ''Traceback'', ''ImportError'',
          ''ImportError - No module named debugpy'']
   \<and> fst (start_debugpy session False (\<lambda>j. [])
       (\<lambda>request. JObject [(''status'', JString ''ok'')])) = Inr True
   \<and> clog (snd (start_debugpy session False (\<lambda>j. [])
       (\<lambda>request. JObject [(''status'', JString ''ok'')]))) = []"
proof -
  have a: "json_find (m_debugger_config session) ''python'' = map_option JString None"
    by (simp add: session_def json_find_def)
  have b: "json_at error_reply ''status'' = Inr (JString ''error'')
      \<and> json_at error_reply ''ename'' = Inr (JString ''ImportError'')
      \<and> json_at error_reply ''evalue'' = Inr (JString ''No module named debugpy'')
      \<and> json_at error_reply ''traceback''
          = Inr (JArray (map JString [''Traceback'', ''ImportError'']))"
    by (simp add: error_reply_def json_at_def)
  have c: "json_at (JObject [(''status'', JString ''ok'')]) ''status'' = Inr (JString ''ok'')"
    by (simp add: json_at_def)
  show ?thesis
    using start_debugpy_status [OF a refl, where send_to_shell = "\<lambda>request. error_reply"
        and status = "''error''" and ename = "''ImportError''"
        and evalue = "''No module named debugpy''"
        and traceback = "[''Traceback'', ''ImportError'']"
        and xeus_log_set = False and dump = "\<lambda>j. []"]
      start_debugpy_status [OF a refl,
        where send_to_shell = "\<lambda>request. JObject [(''status'', JString ''ok'')]"
        and status = "''ok''" and xeus_log_set = False and dump = "\<lambda>j. []"]
      b c
    by simp
qed

section \<open>inspectVariables: properties\<close>

lemma substr_type:
  "8 \<le> length t \<Longrightarrow>
     substr t 8 (size_sub (length t) 10) = Inr (take (size_sub (length t) 10) (drop 8 t))"
  by (simp add: substr_def)

lemma substr_short: "length t < 8 \<Longrightarrow> substr t 8 n = Inl out_of_range"
  by (simp add: substr_def)

lemma descriptor_fields:
  "obj_set (obj_set (obj_set (obj_set [] ''name'' n) ''variablesReference'' r) ''value'' v)
     ''type'' t
   = [(''name'', n), (''type'', t), (''value'', v), (''variablesReference'', r)]"
  by simp

lemma variable_value_returns:
  "py_json obj \<noteq> None \<or> py_repr obj \<noteq> None \<Longrightarrow> variable_value obj = Inr (listed_value obj)"
  by (auto simp: variable_value_def listed_value_def to_json_def split: option.splits)

lemma variable_value_raises:
  "py_json obj = None \<Longrightarrow> py_repr obj = None \<Longrightarrow> variable_value obj = Inl error_already_set"
  by (simp add: variable_value_def to_json_def)

lemma inspect_step_listable:
  assumes "keep_variable n" and "listable obj"
  shows "inspect_loop ((n, obj) # g) acc = inspect_loop g (acc @ [variable_descriptor n obj])"
proof -
  have v: "variable_value obj = Inr (listed_value obj)"
    using assms(2) by (simp add: listable_def variable_value_returns)
  have len: "8 \<le> length (py_type obj)"
    using assms(2) by (simp add: listable_def)
  show ?thesis
    using assms(1)
    by (simp only: inspect_loop.simps if_True Let_def v substr_type [OF len] sum.case
          descriptor_fields variable_descriptor_def)
qed

lemma inspect_step_not_listable:
  assumes "keep_variable n" and "\<not> listable obj"
  shows "\<exists>e. inspect_loop ((n, obj) # g) acc = Inl e"
proof (cases "py_json obj = None \<and> py_repr obj = None")
  case True
  then have "variable_value obj = Inl error_already_set"
    by (simp add: variable_value_raises)
  then show ?thesis
    using assms(1) by simp
next
  case False
  then have v: "variable_value obj = Inr (listed_value obj)"
    by (simp add: variable_value_returns)
  have "length (py_type obj) < 8"
    using assms(2) False by (auto simp: listable_def)
  then have "substr (py_type obj) 8 (size_sub (length (py_type obj)) 10) = Inl out_of_range"
    by (rule substr_short)
  then show ?thesis
    using assms(1) v by (simp add: Let_def)
qed

lemma inspect_step_dropped:
  "\<not> keep_variable n \<Longrightarrow> inspect_loop ((n, obj) # g) acc = inspect_loop g acc"
  by simp

lemma inspect_loop_descriptors:
  assumes "\<forall>(n, obj) \<in> set g. keep_variable n \<longrightarrow> listable obj"
  shows "inspect_loop g acc =
     Inr (acc @ map (\<lambda>(n, obj). variable_descriptor n obj)
                  (filter (\<lambda>(n, obj). keep_variable n) g))"
  using assms
proof (induction g arbitrary: acc)
  case Nil
  then show ?case by simp
next
  case (Cons a g)
  obtain n obj where a: "a = (n, obj)" by (cases a)
  have rest: "\<forall>(n, obj) \<in> set g. keep_variable n \<longrightarrow> listable obj"
    using Cons.prems by simp
  show ?case
  proof (cases "keep_variable n")
    case True
    then have "listable obj"
      using Cons.prems a by simp
    then show ?thesis
      using True by (simp add: a inspect_step_listable Cons.IH [OF rest] del: inspect_loop.simps)
  next
    case False
    then show ?thesis
      by (simp add: a inspect_step_dropped Cons.IH [OF rest] del: inspect_loop.simps)
  qed
qed

lemma inspect_loop_aborts:
  assumes "\<exists>(n, obj) \<in> set g. keep_variable n \<and> \<not> listable obj"
  shows "\<exists>e. inspect_loop g acc = Inl e"
  using assms
proof (induction g arbitrary: acc)
  case Nil
  then show ?case by simp
next
  case (Cons a g)
  obtain n obj where a: "a = (n, obj)" by (cases a)
  show ?case
  proof (cases "keep_variable n")
    case False
    then have "\<exists>(n, obj) \<in> set g. keep_variable n \<and> \<not> listable obj"
      using Cons.prems a by auto
    then show ?thesis
      using False Cons.IH by (simp add: a inspect_step_dropped del: inspect_loop.simps)
  next
    case True
    show ?thesis
    proof (cases "listable obj")
      case False
      then show ?thesis
        using True inspect_step_not_listable by (simp add: a del: inspect_loop.simps)
    next
      case l: True
      then have "\<exists>(n, obj) \<in> set g. keep_variable n \<and> \<not> listable obj"
        using Cons.prems a by auto
      then show ?thesis
        using True l Cons.IH by (simp add: a inspect_step_listable del: inspect_loop.simps)
    qed
  qed
qed

lemma class_str_trunc:
  "take (size_sub (length (class_str X)) 10) (drop 8 (class_str X)) = X"
  by (simp add: class_str_def size_sub_def)

lemma size_sub_ge: "b \<le> a \<Longrightarrow> size_sub a b = a - b"
  by (simp add: size_sub_def)

lemma class_str_length: "8 \<le> length (class_str X)"
  by (simp add: class_str_def)

lemma descriptor_at:
  "json_at (variable_descriptor n obj) ''name'' = Inr (JString n)
   \<and> json_at (variable_descriptor n obj) ''variablesReference'' = Inr (JInt 0)
   \<and> json_at (variable_descriptor n obj) ''value'' = Inr (listed_value obj)
   \<and> json_at (variable_descriptor n obj) ''type''
       = Inr (JString (take (size_sub (length (py_type obj)) 10) (drop 8 (py_type obj))))"
  by (simp add: variable_descriptor_def json_at_def)

lemma listed_value_cases:
  "(\<forall>j. py_json obj = Some j \<longrightarrow> listed_value obj = j)
   \<and> (\<forall>r. py_json obj = None \<and> py_repr obj = Some r \<longrightarrow> listed_value obj = JString r)"
  by (simp add: listed_value_def)

lemma inspect_reply:
  assumes "json_at message ''seq'' = Inr seq"
    and "json_at message ''command'' = Inr command"
    and "\<forall>(n, obj) \<in> set (globals w). keep_variable n \<longrightarrow> listable obj"
  shows "inspect_variables_request message w =
     (Inr (JObject
        [(''body'', JObject [(''variables'', JArray
            (map (\<lambda>(n, obj). variable_descriptor n obj)
               (filter (\<lambda>(n, obj). keep_variable n) (globals w))))]),
         (''command'', command),
         (''request_seq'', seq),
         (''success'', JBool True),
         (''type'', JString ''response'')]), w)"
  using assms(1,2)
  by (simp add: inspect_variables_request_def inspect_loop_descriptors [OF assms(3)]
      json_object_def)

lemma inspect_no_reply:
  assumes "\<exists>(n, obj) \<in> set (globals w). keep_variable n \<and> \<not> listable obj"
  shows "\<exists>e. inspect_variables_request message w = (Inl e, w)"
proof -
  obtain e where "inspect_loop (globals w) [] = Inl e"
    using inspect_loop_aborts [OF assms] by blast
  then show ?thesis
    by (simp add: inspect_variables_request_def)
qed

lemma list_all2_map_same:
  "(\<forall>x \<in> set xs. P (f x) x) \<Longrightarrow> list_all2 P (map f xs) xs"
  by (induction xs) simp_all

lemma keep_examples:
  "keep_variable ''x'' \<and> \<not> keep_variable ''__name__'' \<and> \<not> keep_variable ''_1''
   \<and> keep_variable ''f'' \<and> keep_variable ''y'' \<and> keep_variable ''v''
   \<and> keep_variable ''b'' \<and> keep_variable ''g''"
  by (simp add: keep_variable_def string_at_def isdigit_def get_excluded_variables_def)

lemma inspect_request_fields:
  "json_at inspect_request ''seq'' = Inr (JInt 3)
   \<and> json_at inspect_request ''command'' = Inr (JString ''inspectVariables'')"
  by (simp add: inspect_request_def json_at_def)

text \<open>
  Claim C6, as stated, fails: not every \<open>inspectVariables\<close> request has a reply. The
  truncation of the type stands outside the \<^verbatim>\<open>try\<close> statement, so for a kept variable
  whose type prints as \<open>Foo\<close> the \<^verbatim>\<open>std::out_of_range\<close> of \<^verbatim>\<open>substr\<close> leaves the handler;
  and for a kept variable whose value does not convert and whose \<^verbatim>\<open>__repr__\<close> raises,
  the exception of \<^verbatim>\<open>py::repr\<close> leaves the handler.
\<close>

theorem inspect_variables_listing_counterexample:
  "keep_variable ''v''
   \<and> inspect_variables_request inspect_request (scope_world short_type_scope)
       = (Inl out_of_range, scope_world short_type_scope)
   \<and> keep_variable ''b''
   \<and> inspect_variables_request inspect_request (scope_world raising_repr_scope)
       = (Inl error_already_set, scope_world raising_repr_scope)"
  by (simp add: keep_examples inspect_variables_request_def scope_world_def
      short_type_scope_def raising_repr_scope_def variable_value_def to_json_def substr_def
      Let_def)

text \<open>
  Claim C6, amended. For every \<open>inspectVariables\<close> request, in a global scope where
  every kept variable has a value that converts or a \<^verbatim>\<open>repr\<close> that returns, and a type
  whose \<^verbatim>\<open>str\<close> has at least the eight characters that the handler skips (as
  \<open><class 'X'>\<close> has for every \<open>X\<close>), the reply has \<open>success = true\<close> and its list of
  variables has exactly one descriptor per kept global name, in the order of the scope,
  each with its name, with \<open>variablesReference = 0\<close>, and with the type \<open>X\<close> whenever the
  \<^verbatim>\<open>str\<close> of the type is \<open><class 'X'>\<close>: of a type string of ten characters or more, the
  first eight and the last two are dropped. In any other global scope an exception leaves
  the handler and there is no reply. The witness has the scope
  \<open>{x: 1, __name__: ..., _1: 5}\<close>, which yields exactly one descriptor, for \<open>x\<close>.
\<close>

theorem inspect_variables_listing:
  assumes "json_at message ''seq'' = Inr seq"
    and "json_at message ''command'' = Inr command"
  shows "((\<forall>(n, obj) \<in> set (globals w). keep_variable n \<longrightarrow>
             (py_json obj \<noteq> None \<or> py_repr obj \<noteq> None) \<and> 8 \<le> length (py_type obj)) \<longrightarrow>
          (\<exists>reply body variables.
             inspect_variables_request message w = (Inr reply, w)
             \<and> json_at reply ''success'' = Inr (JBool True)
             \<and> json_at reply ''body'' = Inr body
             \<and> json_at body ''variables'' = Inr (JArray variables)
             \<and> list_all2
                 (\<lambda>d (n, obj).
                    json_at d ''name'' = Inr (JString n)
                    \<and> json_at d ''variablesReference'' = Inr (JInt 0)
                    \<and> (\<forall>X. py_type obj = class_str X \<longrightarrow>
                         json_at d ''type'' = Inr (JString X))
                    \<and> (10 \<le> length (py_type obj) \<longrightarrow>
                         json_at d ''type''
                           = Inr (JString (take (length (py_type obj) - 10)
                                            (drop 8 (py_type obj))))))
                 variables (filter (\<lambda>(n, obj). keep_variable n) (globals w))))
       \<and> ((\<exists>(n, obj) \<in> set (globals w). keep_variable n \<and>
             \<not> ((py_json obj \<noteq> None \<or> py_repr obj \<noteq> None) \<and> 8 \<le> length (py_type obj))) \<longrightarrow>
          (\<exists>e. inspect_variables_request message w = (Inl e, w)))"
proof (intro conjI impI)
  assume ok: "\<forall>(n, obj) \<in> set (globals w). keep_variable n \<longrightarrow>
             (py_json obj \<noteq> None \<or> py_repr obj \<noteq> None) \<and> 8 \<le> length (py_type obj)"
  then have l: "\<forall>(n, obj) \<in> set (globals w). keep_variable n \<longrightarrow> listable obj"
    by (simp add: listable_def)
  let ?kept = "filter (\<lambda>(n, obj). keep_variable n) (globals w)"
  let ?vars = "map (\<lambda>(n, obj). variable_descriptor n obj) ?kept"
  let ?body = "JObject [(''variables'', JArray ?vars)]"
  let ?reply = "JObject
        [(''body'', ?body),
         (''command'', command),
         (''request_seq'', seq),
         (''success'', JBool True),
         (''type'', JString ''response'')]"
  have r5: "list_all2
          (\<lambda>d (n, obj).
             json_at d ''name'' = Inr (JString n)
             \<and> json_at d ''variablesReference'' = Inr (JInt 0)
             \<and> (\<forall>X. py_type obj = class_str X \<longrightarrow> json_at d ''type'' = Inr (JString X))
             \<and> (10 \<le> length (py_type obj) \<longrightarrow>
                  json_at d ''type''
                    = Inr (JString (take (length (py_type obj) - 10) (drop 8 (py_type obj))))))
          ?vars ?kept"
    by (rule list_all2_map_same) (auto simp: descriptor_at class_str_trunc size_sub_ge)
  have r4: "json_at ?body ''variables'' = Inr (JArray ?vars)"
    by (simp add: json_at_def)
  have r1: "inspect_variables_request message w = (Inr ?reply, w)"
    by (rule inspect_reply [OF assms l])
  have r2: "json_at ?reply ''success'' = Inr (JBool True)"
    by (simp add: json_at_def)
  have r3: "json_at ?reply ''body'' = Inr ?body"
    by (simp add: json_at_def)
  show "\<exists>reply body variables.
             inspect_variables_request message w = (Inr reply, w)
             \<and> json_at reply ''success'' = Inr (JBool True)
             \<and> json_at reply ''body'' = Inr body
             \<and> json_at body ''variables'' = Inr (JArray variables)
             \<and> list_all2
                 (\<lambda>d (n, obj).
                    json_at d ''name'' = Inr (JString n)
                    \<and> json_at d ''variablesReference'' = Inr (JInt 0)
                    \<and> (\<forall>X. py_type obj = class_str X \<longrightarrow>
                         json_at d ''type'' = Inr (JString X))
                    \<and> (10 \<le> length (py_type obj) \<longrightarrow>
                         json_at d ''type''
                           = Inr (JString (take (length (py_type obj) - 10)
                                            (drop 8 (py_type obj))))))
                 variables (filter (\<lambda>(n, obj). keep_variable n) (globals w))"
    by (intro exI conjI) (rule r1 r2 r3 r4 r5)+
next
  assume "\<exists>(n, obj) \<in> set (globals w). keep_variable n \<and>
             \<not> ((py_json obj \<noteq> None \<or> py_repr obj \<noteq> None) \<and> 8 \<le> length (py_type obj))"
  then have "\<exists>(n, obj) \<in> set (globals w). keep_variable n \<and> \<not> listable obj"
    by (simp add: listable_def)
  then show "\<exists>e. inspect_variables_request message w = (Inl e, w)"
    by (rule inspect_no_reply)
qed

theorem inspect_variables_listing_witness:
  "(\<exists>reply body d.
      inspect_variables_request inspect_request example_world = (Inr reply, example_world)
      \<and> json_at reply ''success'' = Inr (JBool True)
      \<and> json_at reply ''body'' = Inr body
      \<and> json_at body ''variables'' = Inr (JArray [d])
      \<and> json_at d ''name'' = Inr (JString ''x'')
      \<and> json_at d ''variablesReference'' = Inr (JInt 0)
      \<and> json_at d ''type'' = Inr (JString ''int''))
   \<and> (\<exists>e. inspect_variables_request inspect_request (scope_world short_type_scope)
          = (Inl e, scope_world short_type_scope))"
proof -
  note t = inspect_variables_listing [OF inspect_request_fields [THEN conjunct1]
        inspect_request_fields [THEN conjunct2]]
  have ok: "\<forall>(n, obj) \<in> set (globals example_world). keep_variable n \<longrightarrow>
      (py_json obj \<noteq> None \<or> py_repr obj \<noteq> None) \<and> 8 \<le> length (py_type obj)"
    by (simp add: example_world_def example_scope_def class_str_length)
  have kept: "filter (\<lambda>(n, obj). keep_variable n) (globals example_world)
      = [(''x'', PyObject (Some (JInt 1)) (Some ''1'') ''1'' (class_str ''int'') None)]"
    by (simp add: example_world_def example_scope_def keep_examples)
  obtain reply body variables where r:
      "inspect_variables_request inspect_request example_world = (Inr reply, example_world)"
      "json_at reply ''success'' = Inr (JBool True)"
      "json_at reply ''body'' = Inr body"
      "json_at body ''variables'' = Inr (JArray variables)"
      "list_all2
          (\<lambda>d (n, obj).
             json_at d ''name'' = Inr (JString n)
             \<and> json_at d ''variablesReference'' = Inr (JInt 0)
             \<and> (\<forall>X. py_type obj = class_str X \<longrightarrow> json_at d ''type'' = Inr (JString X))
             \<and> (10 \<le> length (py_type obj) \<longrightarrow>
                  json_at d ''type''
                    = Inr (JString (take (length (py_type obj) - 10) (drop 8 (py_type obj))))))
          variables (filter (\<lambda>(n, obj). keep_variable n) (globals example_world))"
    using t [of example_world, THEN conjunct1, THEN mp, OF ok]
    by (elim exE conjE) (rule that)
  from r(5) obtain d where d: "variables = [d]" "json_at d ''name'' = Inr (JString ''x'')"
      "json_at d ''variablesReference'' = Inr (JInt 0)"
      "json_at d ''type'' = Inr (JString ''int'')"
    unfolding kept by (auto simp: list_all2_Cons2)
  have a: "\<exists>reply body d.
      inspect_variables_request inspect_request example_world = (Inr reply, example_world)
      \<and> json_at reply ''success'' = Inr (JBool True)
      \<and> json_at reply ''body'' = Inr body
      \<and> json_at body ''variables'' = Inr (JArray [d])
      \<and> json_at d ''name'' = Inr (JString ''x'')
      \<and> json_at d ''variablesReference'' = Inr (JInt 0)
      \<and> json_at d ''type'' = Inr (JString ''int'')"
    using r(1-4) d by blast
  have bad: "\<exists>(n, obj) \<in> set (globals (scope_world short_type_scope)). keep_variable n \<and>
      \<not> ((py_json obj \<noteq> None \<or> py_repr obj \<noteq> None) \<and> 8 \<le> length (py_type obj))"
    by (simp add: scope_world_def short_type_scope_def keep_examples)
  have b: "\<exists>e. inspect_variables_request inspect_request (scope_world short_type_scope)
          = (Inl e, scope_world short_type_scope)"
    using t [of "scope_world short_type_scope", THEN conjunct2, THEN mp, OF bad] .
  from a b show ?thesis by (rule conjI)
qed

text \<open>
  Claim C9, as stated, fails: a failure to convert a value can end the listing. The
  fallback \<^verbatim>\<open>py::repr\<close> is called in the \<^verbatim>\<open>catch\<close> clause, unguarded: for a variable \<open>b\<close>
  whose value does not convert and whose \<^verbatim>\<open>__repr__\<close> raises, the exception leaves the
  handler, and the kept variable \<open>y\<close> after it is never listed. And after a fallback that
  returned, the truncation of a type that prints as \<open>Foo\<close> ends the listing as well.
\<close>

theorem inspect_variables_fallback_counterexample:
  "keep_variable ''b'' \<and> keep_variable ''y'' \<and> keep_variable ''g''
   \<and> to_json (PyObject None None ''b'' (class_str ''Broken'') None) = Inl runtime_error
   \<and> inspect_variables_request inspect_request (scope_world raising_repr_scope)
       = (Inl error_already_set, scope_world raising_repr_scope)
   \<and> to_json (PyObject None (Some ''<g>'') ''<g>'' ''Foo'' None) = Inl runtime_error
   \<and> inspect_variables_request inspect_request (scope_world fallback_short_type_scope)
       = (Inl out_of_range, scope_world fallback_short_type_scope)"
  by (simp add: keep_examples inspect_variables_request_def scope_world_def
      fallback_short_type_scope_def raising_repr_scope_def variable_value_def to_json_def
      substr_def Let_def)

text \<open>
  Claim C9, amended. In the listing of \<open>inspectVariables\<close>, a variable whose value does
  not convert and whose \<^verbatim>\<open>repr\<close> returns has that \<^verbatim>\<open>repr\<close> as value, and every
  variable whose value converts has the converted value. The handler replies exactly
  when, for every kept variable, the value converts or the \<^verbatim>\<open>repr\<close> returns, and the
  \<^verbatim>\<open>str\<close> of the type has at least eight characters; the reply then holds one
  descriptor for each kept variable. So a failed conversion alone never ends the listing;
  a \<^verbatim>\<open>repr\<close> that raises, or a shorter type string, does.
\<close>

theorem inspect_variables_fallback:
  assumes "json_at message ''seq'' = Inr seq"
    and "json_at message ''command'' = Inr command"
  shows "((\<exists>reply. fst (inspect_variables_request message w) = Inr reply)
          = (\<forall>(n, obj) \<in> set (globals w). keep_variable n \<longrightarrow>
               (py_json obj \<noteq> None \<or> py_repr obj \<noteq> None) \<and> 8 \<le> length (py_type obj)))
       \<and> ((\<forall>(n, obj) \<in> set (globals w). keep_variable n \<longrightarrow>
             (py_json obj \<noteq> None \<or> py_repr obj \<noteq> None) \<and> 8 \<le> length (py_type obj)) \<longrightarrow>
          (\<exists>reply body variables.
             inspect_variables_request message w = (Inr reply, w)
             \<and> json_at reply ''body'' = Inr body
             \<and> json_at body ''variables'' = Inr (JArray variables)
             \<and> list_all2
                 (\<lambda>d (n, obj).
                    json_at d ''name'' = Inr (JString n)
                    \<and> (\<forall>r. py_json obj = None \<and> py_repr obj = Some r \<longrightarrow>
                         json_at d ''value'' = Inr (JString r))
                    \<and> (\<forall>j. py_json obj = Some j \<longrightarrow> json_at d ''value'' = Inr j))
                 variables (filter (\<lambda>(n, obj). keep_variable n) (globals w))))"
proof -
  let ?ok = "\<forall>(n, obj) \<in> set (globals w). keep_variable n \<longrightarrow>
               (py_json obj \<noteq> None \<or> py_repr obj \<noteq> None) \<and> 8 \<le> length (py_type obj)"
  let ?kept = "filter (\<lambda>(n, obj). keep_variable n) (globals w)"
  let ?vars = "map (\<lambda>(n, obj). variable_descriptor n obj) ?kept"
  let ?body = "JObject [(''variables'', JArray ?vars)]"
  let ?reply = "JObject
        [(''body'', ?body),
         (''command'', command),
         (''request_seq'', seq),
         (''success'', JBool True),
         (''type'', JString ''response'')]"
  have listing: "\<exists>reply body variables.
             inspect_variables_request message w = (Inr reply, w)
             \<and> json_at reply ''body'' = Inr body
             \<and> json_at body ''variables'' = Inr (JArray variables)
             \<and> list_all2
                 (\<lambda>d (n, obj).
                    json_at d ''name'' = Inr (JString n)
                    \<and> (\<forall>r. py_json obj = None \<and> py_repr obj = Some r \<longrightarrow>
                         json_at d ''value'' = Inr (JString r))
                    \<and> (\<forall>j. py_json obj = Some j \<longrightarrow> json_at d ''value'' = Inr j))
                 variables (filter (\<lambda>(n, obj). keep_variable n) (globals w))"
    if ok: ?ok
  proof -
    have l: "\<forall>(n, obj) \<in> set (globals w). keep_variable n \<longrightarrow> listable obj"
      using ok by (simp add: listable_def)
    have r5: "list_all2
          (\<lambda>d (n, obj).
             json_at d ''name'' = Inr (JString n)
             \<and> (\<forall>r. py_json obj = None \<and> py_repr obj = Some r \<longrightarrow>
                  json_at d ''value'' = Inr (JString r))
             \<and> (\<forall>j. py_json obj = Some j \<longrightarrow> json_at d ''value'' = Inr j))
          ?vars ?kept"
      by (rule list_all2_map_same) (auto simp: descriptor_at listed_value_cases)
    have r4: "json_at ?body ''variables'' = Inr (JArray ?vars)"
      by (simp add: json_at_def)
    have r1: "inspect_variables_request message w = (Inr ?reply, w)"
      by (rule inspect_reply [OF assms l])
    have r3: "json_at ?reply ''body'' = Inr ?body"
      by (simp add: json_at_def)
    show ?thesis
      by (intro exI conjI) (rule r1 r3 r4 r5)+
  qed
  have iff: "(\<exists>reply. fst (inspect_variables_request message w) = Inr reply) = ?ok"
  proof
    assume ret: "\<exists>reply. fst (inspect_variables_request message w) = Inr reply"
    show ?ok
    proof (rule ccontr)
      assume "\<not> ?ok"
      then have "\<exists>(n, obj) \<in> set (globals w). keep_variable n \<and> \<not> listable obj"
        by (auto simp: listable_def)
      then obtain e where "inspect_variables_request message w = (Inl e, w)"
        using inspect_no_reply by blast
      then show False using ret by simp
    qed
  next
    assume ?ok
    then obtain reply where "inspect_variables_request message w = (Inr reply, w)"
      using listing by blast
    then show "\<exists>reply. fst (inspect_variables_request message w) = Inr reply"
      by simp
  qed
  show ?thesis
    using iff listing by (intro conjI impI)
qed

theorem inspect_variables_fallback_witness:
  "(\<exists>reply body d1 d2.
      inspect_variables_request inspect_request function_world = (Inr reply, function_world)
      \<and> json_at reply ''body'' = Inr body
      \<and> json_at body ''variables'' = Inr (JArray [d1, d2])
      \<and> json_at d1 ''name'' = Inr (JString ''f'')
      \<and> json_at d1 ''value'' = Inr (JString ''<function f at 0x7f01>'')
      \<and> json_at d2 ''name'' = Inr (JString ''y'')
      \<and> json_at d2 ''value'' = Inr (JInt 2))
   \<and> \<not> (\<exists>reply. fst (inspect_variables_request inspect_request
             (scope_world raising_repr_scope)) = Inr reply)"
proof -
  note t = inspect_variables_fallback [OF inspect_request_fields [THEN conjunct1]
        inspect_request_fields [THEN conjunct2]]
  have ok: "\<forall>(n, obj) \<in> set (globals function_world). keep_variable n \<longrightarrow>
      (py_json obj \<noteq> None \<or> py_repr obj \<noteq> None) \<and> 8 \<le> length (py_type obj)"
    by (simp add: function_world_def function_scope_def class_str_length)
  have kept: "filter (\<lambda>(n, obj). keep_variable n) (globals function_world) = function_scope"
    by (simp add: function_world_def function_scope_def keep_examples)
  obtain reply body variables where r:
      "inspect_variables_request inspect_request function_world = (Inr reply, function_world)"
      "json_at reply ''body'' = Inr body"
      "json_at body ''variables'' = Inr (JArray variables)"
      "list_all2
          (\<lambda>d (n, obj).
             json_at d ''name'' = Inr (JString n)
             \<and> (\<forall>r. py_json obj = None \<and> py_repr obj = Some r \<longrightarrow>
                  json_at d ''value'' = Inr (JString r))
             \<and> (\<forall>j. py_json obj = Some j \<longrightarrow> json_at d ''value'' = Inr j))
          variables (filter (\<lambda>(n, obj). keep_variable n) (globals function_world))"
    using t [of function_world, THEN conjunct2, THEN mp, OF ok]
    by (elim exE conjE) (rule that)
  from r(4) obtain d1 d2 where d: "variables = [d1, d2]"
      "json_at d1 ''name'' = Inr (JString ''f'')"
      "json_at d1 ''value'' = Inr (JString ''<function f at 0x7f01>'')"
      "json_at d2 ''name'' = Inr (JString ''y'')"
      "json_at d2 ''value'' = Inr (JInt 2)"
    unfolding kept function_scope_def by (auto simp: list_all2_Cons2)
  have a: "\<exists>reply body d1 d2.
      inspect_variables_request inspect_request function_world = (Inr reply, function_world)
      \<and> json_at reply ''body'' = Inr body
      \<and> json_at body ''variables'' = Inr (JArray [d1, d2])
      \<and> json_at d1 ''name'' = Inr (JString ''f'')
      \<and> json_at d1 ''value'' = Inr (JString ''<function f at 0x7f01>'')
      \<and> json_at d2 ''name'' = Inr (JString ''y'')
      \<and> json_at d2 ''value'' = Inr (JInt 2)"
    using r(1-3) d by blast
  have bad: "\<not> (\<forall>(n, obj) \<in> set (globals (scope_world raising_repr_scope)).
      keep_variable n \<longrightarrow>
      (py_json obj \<noteq> None \<or> py_repr obj \<noteq> None) \<and> 8 \<le> length (py_type obj))"
    by (simp add: scope_world_def raising_repr_scope_def keep_examples)
  have b: "\<not> (\<exists>reply. fst (inspect_variables_request inspect_request
             (scope_world raising_repr_scope)) = Inr reply)"
    using t [of "scope_world raising_repr_scope", THEN conjunct1] bad by simp
  from a b show ?thesis by (rule conjI)
qed

section \<open>richInspectVariables: the reply\<close>

lemma json_find_get: "json_find (json_get j k1) k = entry j k1 k"
  by (simp add: json_get_def entry_def json_find_def split: option.splits)

lemma json_get_upd:
  "json_find j' = (json_find j)(k1 \<mapsto> inner) \<Longrightarrow>
     json_get j' k = (if k = k1 then inner else json_get j k)"
  by (simp add: json_get_def)

lemma entry_upd:
  "json_find j' = (json_find j)(k1 \<mapsto> inner) \<Longrightarrow>
     entry j' k s = (if k = k1 then json_find inner s else entry j k s)"
  by (simp add: entry_def)

lemma json_set2_entries:
  assumes "is_container j" and "is_container (json_get j k1)"
  shows "\<exists>j'. json_set2 j k1 k2 v = Inr j' \<and> is_container j'
           \<and> is_container (json_get j' k1)
           \<and> (\<forall>k. k \<noteq> k1 \<longrightarrow> json_get j' k = json_get j k)
           \<and> (\<forall>s. entry j' k1 s = (if s = k2 then Some v else entry j k1 s))
           \<and> (\<forall>k s. k \<noteq> k1 \<longrightarrow> entry j' k s = entry j k s)"
proof -
  obtain j' inner where j: "json_set2 j k1 k2 v = Inr j'" "is_container j'"
      "json_find j' = (json_find j)(k1 \<mapsto> inner)" "is_container inner"
      "json_find inner = (json_find (json_get j k1))(k2 \<mapsto> v)"
    using json_set2_find [OF assms] by blast
  have "is_container (json_get j' k1)"
    using j(4) by (simp add: json_get_upd [OF j(3)])
  moreover have "\<forall>k. k \<noteq> k1 \<longrightarrow> json_get j' k = json_get j k"
    by (simp add: json_get_upd [OF j(3)])
  moreover have "\<forall>s. entry j' k1 s = (if s = k2 then Some v else entry j k1 s)"
    by (simp add: entry_upd [OF j(3)] j(5) json_find_get)
  moreover have "\<forall>k s. k \<noteq> k1 \<longrightarrow> entry j' k s = entry j k s"
    by (simp add: entry_upd [OF j(3)])
  ultimately show ?thesis
    using j(1,2) by blast
qed

lemma py_getitem_entries:
  assumes "py_entries obj = Some es" and "key \<in> fst ` set es"
  shows "\<exists>v. py_getitem obj key = Inr v \<and> v \<in> snd ` set es"
proof -
  obtain v where v: "map_of es key = Some v"
    using assms(2) by (metis domD dom_map_of_conv_image_fst)
  then have "(key, v) \<in> set es" by (rule map_of_SomeD)
  then have "v \<in> snd ` set es" by force
  then show ?thesis
    using v by (simp add: py_getitem_def assms(1))
qed

lemma to_json_convertible: "py_json v \<noteq> None \<Longrightarrow> \<exists>j. to_json v = Inr j"
  by (auto simp: to_json_def)

lemma rich_step_entries:
  assumes ok: "is_container body" "is_container (json_get body ''data'')"
      "is_container (json_get body ''metadata'')"
    and d: "py_entries repr_data = Some ds" "key \<in> fst ` set ds"
      "\<forall>v \<in> snd ` set ds. py_json v \<noteq> None"
    and m: "py_entries repr_metadata = Some ms" "\<forall>v \<in> snd ` set ms. py_json v \<noteq> None"
  shows "\<exists>body'. rich_step key repr_data repr_metadata body = Inr body'
      \<and> is_container body' \<and> is_container (json_get body' ''data'')
      \<and> is_container (json_get body' ''metadata'')
      \<and> (\<forall>s. (entry body' ''data'' s \<noteq> None)
              = (entry body ''data'' s \<noteq> None \<or> s = py_str key))
      \<and> (\<forall>s. (entry body' ''metadata'' s \<noteq> None)
              = (entry body ''metadata'' s \<noteq> None
                 \<or> (s = py_str key \<and> key \<in> fst ` set ms)))"
proof -
  obtain v where v: "py_getitem repr_data key = Inr v" "v \<in> snd ` set ds"
    using py_getitem_entries [OF d(1,2)] by blast
  obtain j where j: "to_json v = Inr j"
    using to_json_convertible d(3) v(2) by blast
  obtain b1 where b1: "json_set2 body ''data'' (py_str key) j = Inr b1" "is_container b1"
      "is_container (json_get b1 ''data'')"
      "\<forall>k. k \<noteq> ''data'' \<longrightarrow> json_get b1 k = json_get body k"
      "\<forall>s. entry b1 ''data'' s = (if s = py_str key then Some j else entry body ''data'' s)"
      "\<forall>k s. k \<noteq> ''data'' \<longrightarrow> entry b1 k s = entry body k s"
    using json_set2_entries [OF ok(1,2)] by blast
  have c: "py_contains repr_metadata key = Inr (key \<in> fst ` set ms)"
    by (simp add: py_contains_def m(1))
  have md1: "is_container (json_get b1 ''metadata'')"
    using b1(4) ok(3) by simp
  show ?thesis
  proof (cases "key \<in> fst ` set ms")
    case False
    have "rich_step key repr_data repr_metadata body = Inr b1"
      using False by (simp add: rich_step_def v(1) j b1(1) c)
    then show ?thesis
      using False b1 md1 by auto
  next
    case True
    obtain mv where mv: "py_getitem repr_metadata key = Inr mv" "mv \<in> snd ` set ms"
      using py_getitem_entries [OF m(1) True] by blast
    obtain mj where mj: "to_json mv = Inr mj"
      using to_json_convertible m(2) mv(2) by blast
    obtain b2 where b2: "json_set2 b1 ''metadata'' (py_str key) mj = Inr b2" "is_container b2"
        "is_container (json_get b2 ''metadata'')"
        "\<forall>k. k \<noteq> ''metadata'' \<longrightarrow> json_get b2 k = json_get b1 k"
        "\<forall>s. entry b2 ''metadata'' s
           = (if s = py_str key then Some mj else entry b1 ''metadata'' s)"
        "\<forall>k s. k \<noteq> ''metadata'' \<longrightarrow> entry b2 k s = entry b1 k s"
      using json_set2_entries [OF b1(2) md1] by blast
    have "rich_step key repr_data repr_metadata body = Inr b2"
      using True by (simp add: rich_step_def v(1) j b1(1) c mv(1) mj b2(1))
    moreover have "is_container (json_get b2 ''data'')"
      using b2(4) b1(3) by simp
    moreover have "\<forall>s. (entry b2 ''data'' s \<noteq> None)
              = (entry body ''data'' s \<noteq> None \<or> s = py_str key)"
      using b2(6) b1(5) by simp
    moreover have "\<forall>s. (entry b2 ''metadata'' s \<noteq> None)
              = (entry body ''metadata'' s \<noteq> None
                 \<or> (s = py_str key \<and> key \<in> fst ` set ms))"
      using b2(5) b1(6) True by simp
    ultimately show ?thesis
      using b2(2,3) by blast
  qed
qed

lemma rich_loop_entries:
  assumes ok: "is_container body" "is_container (json_get body ''data'')"
      "is_container (json_get body ''metadata'')"
    and d: "py_entries repr_data = Some ds" "set keys \<subseteq> fst ` set ds"
      "\<forall>v \<in> snd ` set ds. py_json v \<noteq> None"
    and m: "py_entries repr_metadata = Some ms" "\<forall>v \<in> snd ` set ms. py_json v \<noteq> None"
  shows "\<exists>body'. rich_loop keys repr_data repr_metadata body = Inr body'
      \<and> (\<forall>s. (entry body' ''data'' s \<noteq> None)
              = (entry body ''data'' s \<noteq> None \<or> s \<in> py_str ` set keys))
      \<and> (\<forall>s. (entry body' ''metadata'' s \<noteq> None)
              = (entry body ''metadata'' s \<noteq> None
                 \<or> (\<exists>k \<in> set keys. py_str k = s \<and> k \<in> fst ` set ms)))"
  using ok d(2)
proof (induction keys arbitrary: body)
  case Nil
  then show ?case by simp
next
  case (Cons key keys)
  have k: "key \<in> fst ` set ds" and ks: "set keys \<subseteq> fst ` set ds"
    using Cons.prems(4) by simp_all
  obtain b1 where b1: "rich_step key repr_data repr_metadata body = Inr b1"
      "is_container b1" "is_container (json_get b1 ''data'')"
      "is_container (json_get b1 ''metadata'')"
      "\<forall>s. (entry b1 ''data'' s \<noteq> None)
              = (entry body ''data'' s \<noteq> None \<or> s = py_str key)"
      "\<forall>s. (entry b1 ''metadata'' s \<noteq> None)
              = (entry body ''metadata'' s \<noteq> None
                 \<or> (s = py_str key \<and> key \<in> fst ` set ms))"
    using rich_step_entries [OF Cons.prems(1,2,3) d(1) k d(3) m]
    by (elim exE conjE) (rule that)
  obtain b2 where b2: "rich_loop keys repr_data repr_metadata b1 = Inr b2"
      "\<forall>s. (entry b2 ''data'' s \<noteq> None)
              = (entry b1 ''data'' s \<noteq> None \<or> s \<in> py_str ` set keys)"
      "\<forall>s. (entry b2 ''metadata'' s \<noteq> None)
              = (entry b1 ''metadata'' s \<noteq> None
                 \<or> (\<exists>k \<in> set keys. py_str k = s \<and> k \<in> fst ` set ms))"
    using Cons.IH [OF b1(2,3,4) ks]
    by (elim exE conjE) (rule that)
  have r: "rich_loop (key # keys) repr_data repr_metadata body = Inr b2"
    by (simp add: b1(1) b2(1))
  have e1: "\<forall>s. (entry b2 ''data'' s \<noteq> None)
              = (entry body ''data'' s \<noteq> None \<or> s \<in> py_str ` set (key # keys))"
  proof
    fix s
    show "(entry b2 ''data'' s \<noteq> None)
              = (entry body ''data'' s \<noteq> None \<or> s \<in> py_str ` set (key # keys))"
      unfolding b2(2) [rule_format] b1(5) [rule_format] by auto
  qed
  have e2: "\<forall>s. (entry b2 ''metadata'' s \<noteq> None)
              = (entry body ''metadata'' s \<noteq> None
                 \<or> (\<exists>k \<in> set (key # keys). py_str k = s \<and> k \<in> fst ` set ms))"
  proof
    fix s
    show "(entry b2 ''metadata'' s \<noteq> None)
              = (entry body ''metadata'' s \<noteq> None
                 \<or> (\<exists>k \<in> set (key # keys). py_str k = s \<and> k \<in> fst ` set ms))"
      unfolding b2(3) [rule_format] b1(6) [rule_format] by auto
  qed
  show ?case
    by (intro exI conjI) (rule r e1 e2)+
qed

lemma rich_body_initial:
  "json_object [(''data'', JNull), (''metadata'', JNull)]
     = JObject [(''data'', JNull), (''metadata'', JNull)]
   \<and> is_container (JObject [(''data'', JNull), (''metadata'', JNull)])
   \<and> is_container (json_get (JObject [(''data'', JNull), (''metadata'', JNull)]) ''data'')
   \<and> is_container (json_get (JObject [(''data'', JNull), (''metadata'', JNull)]) ''metadata'')
   \<and> entry (JObject [(''data'', JNull), (''metadata'', JNull)]) ''data'' s = None
   \<and> entry (JObject [(''data'', JNull), (''metadata'', JNull)]) ''metadata'' s = None"
  by (simp add: json_object_def is_container_def json_get_def json_find_def entry_def)

lemma rich_reply_initial:
  "json_object
     [(''type'', JString ''response''), (''request_seq'', seq), (''success'', JBool False),
      (''command'', command)]
   = JObject
     [(''command'', command), (''request_seq'', seq), (''success'', JBool False),
      (''type'', JString ''response'')]"
  by (simp add: json_object_def)

lemma rich_reply_final:
  "\<exists>reply.
     and_then (json_set (JObject
         [(''command'', command), (''request_seq'', seq), (''success'', JBool False),
          (''type'', JString ''response'')]) ''body'' body)
       (\<lambda>reply. json_set reply ''success'' (JBool True)) = Inr reply
     \<and> json_at reply ''success'' = Inr (JBool True)
     \<and> json_at reply ''request_seq'' = Inr seq
     \<and> json_at reply ''body'' = Inr body"
  by (simp add: json_set_def json_at_def)

lemma rich_inspect_reply_entries:
  assumes msg: "json_at message ''seq'' = Inr seq" "json_at message ''command'' = Inr command"
    and g: "map_of g (var_repr_data var_name) = Some repr_data"
      "map_of g (var_repr_metadata var_name) = Some repr_metadata"
    and d: "py_entries repr_data = Some ds" "\<forall>v \<in> snd ` set ds. py_json v \<noteq> None"
    and m: "py_entries repr_metadata = Some ms" "\<forall>v \<in> snd ` set ms. py_json v \<noteq> None"
  shows "\<exists>reply body.
      rich_inspect_reply message var_name g = Inr reply
      \<and> json_at reply ''success'' = Inr (JBool True)
      \<and> json_at reply ''request_seq'' = Inr seq
      \<and> json_at reply ''body'' = Inr body
      \<and> (\<forall>s. (entry body ''data'' s \<noteq> None) = (s \<in> py_str ` fst ` set ds))
      \<and> (\<forall>s. (entry body ''metadata'' s \<noteq> None)
              = (\<exists>k \<in> fst ` set ds. py_str k = s \<and> k \<in> fst ` set ms))"
proof -
  let ?b0 = "JObject [(''data'', JNull), (''metadata'', JNull)]"
  note i = rich_body_initial
  have sub: "set (map fst ds) \<subseteq> fst ` set ds" by simp
  obtain body where b: "rich_loop (map fst ds) repr_data repr_metadata ?b0 = Inr body"
      "\<forall>s. (entry body ''data'' s \<noteq> None)
              = (entry ?b0 ''data'' s \<noteq> None \<or> s \<in> py_str ` set (map fst ds))"
      "\<forall>s. (entry body ''metadata'' s \<noteq> None)
              = (entry ?b0 ''metadata'' s \<noteq> None
                 \<or> (\<exists>k \<in> set (map fst ds). py_str k = s \<and> k \<in> fst ` set ms))"
    using rich_loop_entries [OF i [THEN conjunct2, THEN conjunct1]
        i [THEN conjunct2, THEN conjunct2, THEN conjunct1]
        i [THEN conjunct2, THEN conjunct2, THEN conjunct2, THEN conjunct1] d(1) sub d(2) m]
    by (elim exE conjE) (rule that)
  obtain reply where r:
     "and_then (json_set (JObject
         [(''command'', command), (''request_seq'', seq), (''success'', JBool False),
          (''type'', JString ''response'')]) ''body'' body)
       (\<lambda>reply. json_set reply ''success'' (JBool True)) = Inr reply"
     "json_at reply ''success'' = Inr (JBool True)"
     "json_at reply ''request_seq'' = Inr seq"
     "json_at reply ''body'' = Inr body"
    using rich_reply_final [of command seq body]
    by (elim exE conjE) (rule that)
  have r0: "rich_inspect_reply message var_name g = Inr reply"
    by (simp add: rich_inspect_reply_def msg globals_at_def g py_iter_def d(1) Let_def
        rich_reply_initial i [THEN conjunct1] b(1) r(1))
  have e1: "\<forall>s. (entry body ''data'' s \<noteq> None) = (s \<in> py_str ` fst ` set ds)"
    using b(2) by (simp add: i)
  have e2: "\<forall>s. (entry body ''metadata'' s \<noteq> None)
              = (\<exists>k \<in> fst ` set ds. py_str k = s \<and> k \<in> fst ` set ms)"
    using b(3) by (simp add: i)
  show ?thesis
    by (intro exI conjI) (rule r0 r e1 e2)+
qed



lemma py_string_facts:
  "py_json (py_string s) = Some (JString s) \<and> py_str (py_string s) = s
   \<and> (py_string s = py_string t) = (s = t)"
  by (auto simp: py_string_def)



section \<open>richInspectVariables: the synthetic globals\<close>

lemma repr_names_differ: "v1 @ ''_repr_data'' \<noteq> v2 @ ''_repr_metada''"
proof
  assume "v1 @ ''_repr_data'' = v2 @ ''_repr_metada''"
  then have "rev (v1 @ ''_repr_data'') = rev (v2 @ ''_repr_metada'')"
    by (rule arg_cong)
  then show False by simp
qed

lemma rich_inspect_reply_reads:
  assumes "map_of g1 (var_repr_data v) = map_of g2 (var_repr_data v)"
    and "map_of g1 (var_repr_metadata v) = map_of g2 (var_repr_metadata v)"
  shows "rich_inspect_reply message v g1 = rich_inspect_reply message v g2"
  using assms by (simp add: rich_inspect_reply_def globals_at_def)

lemma rich_inspect_reply_missing:
  assumes "json_at message ''seq'' = Inr seq" and "json_at message ''command'' = Inr command"
    and "map_of g (var_repr_data v) = None \<or> map_of g (var_repr_metadata v) = None"
  shows "rich_inspect_reply message v g = Inl error_already_set"
proof (cases "map_of g (var_repr_data v)")
  case None
  then show ?thesis
    by (simp add: rich_inspect_reply_def assms(1,2) globals_at_def Let_def)
next
  case (Some d)
  then have "map_of g (var_repr_metadata v) = None"
    using assms(3) by simp
  then show ?thesis
    by (simp add: rich_inspect_reply_def assms(1,2) globals_at_def Let_def Some)
qed

lemma rich_request_reads:
  assumes "json_at message ''arguments'' = Inr args"
    and "json_at args ''variableName'' = Inr (JString v)"
    and "(stopped_threads w = {} \<and> fst (interp (rich_inspect_code v) (globals w)) = None)
         \<or> (stopped_threads w \<noteq> {} \<and> json_at args ''frameId'' = Inr (JInt f)
            \<and> json_at message ''seq'' = Inr (JInt s))"
  shows "fst (rich_inspect_variables_request interp ad message w)
     = rich_inspect_reply message v
         (globals (snd (rich_inspect_variables_request interp ad message w)))"
  using assms
  by (auto simp: rich_inspect_variables_request_def get_string_def get_int_def exec_def
        forward_message_def split: prod.splits option.splits)

lemma rich_request_globals:
  assumes "json_at message ''arguments'' = Inr args"
    and "json_at args ''variableName'' = Inr (JString v)"
    and "stopped_threads w = {}"
  shows "globals (snd (rich_inspect_variables_request interp ad message w))
     = snd (interp (rich_inspect_code v) (globals w))"
  using assms
  by (auto simp: rich_inspect_variables_request_def get_string_def exec_def
        split: prod.splits option.splits)

text \<open>
  Claim C10. Take a \<open>richInspectVariables\<close> request for the variable named \<open>v\<close>, on
  either path. The two synthetic globals of the handler are named from \<open>v\<close> alone: \<open>v\<close>
  followed by \<open>_repr_data\<close>, and \<open>v\<close> followed by \<open>_repr_metada\<close>. The handler writes
  them: the code it runs in the interpreter assigns to these two names, and so does the
  expression of the request it forwards. The handler reads them: if either is missing
  after the path, the lookup raises; if both hold mappings, the body of the reply has the
  keys of the mapping under the first name as \<open>data\<close>, and of these the keys of the
  mapping under the second name as \<open>metadata\<close>. It reads nothing else of the global scope:
  two runs for \<open>v\<close> that leave the same objects under the two names have the same
  result. And the two names for \<open>v\<close> are different from the two names for any other
  variable, so requests for distinct variables use disjoint pairs of globals.
\<close>

theorem rich_inspect_globals_by_name:
  assumes "json_at message ''arguments'' = Inr args"
    and "json_at args ''variableName'' = Inr (JString v)"
    and "json_at message ''seq'' = Inr (JInt s)"
    and "json_at message ''command'' = Inr command"
    and "(stopped_threads w = {} \<and> fst (interp (rich_inspect_code v) (globals w)) = None)
         \<or> (stopped_threads w \<noteq> {} \<and> json_at args ''frameId'' = Inr (JInt f))"
  shows "(stopped_threads w = {} \<longrightarrow>
            executed (snd (rich_inspect_variables_request interp ad message w))
              = executed w
                @ [''from IPython import get_ipython;'' @ v @ ''_repr_data,'' @ v
                   @ ''_repr_metada= get_ipython().display_formatter.format('' @ v @ '')''])
       \<and> (stopped_threads w \<noteq> {} \<longrightarrow>
            (\<exists>request.
               forwarded (snd (rich_inspect_variables_request interp ad message w))
                 = forwarded w @ [request]
               \<and> and_then (json_at request ''arguments'') (\<lambda>a. json_at a ''expression'')
                   = Inr (JString (v @ ''_repr_data,'' @ v @ ''_repr_metada''))))
       \<and> (map_of (globals (snd (rich_inspect_variables_request interp ad message w)))
              (v @ ''_repr_data'') = None
            \<or> map_of (globals (snd (rich_inspect_variables_request interp ad message w)))
              (v @ ''_repr_metada'') = None \<longrightarrow>
            fst (rich_inspect_variables_request interp ad message w) = Inl error_already_set)
       \<and> (\<forall>repr_data repr_metadata ds ms.
            map_of (globals (snd (rich_inspect_variables_request interp ad message w)))
              (v @ ''_repr_data'') = Some repr_data
            \<and> map_of (globals (snd (rich_inspect_variables_request interp ad message w)))
              (v @ ''_repr_metada'') = Some repr_metadata
            \<and> py_entries repr_data = Some ds \<and> (\<forall>x \<in> snd ` set ds. py_json x \<noteq> None)
            \<and> py_entries repr_metadata = Some ms \<and> (\<forall>x \<in> snd ` set ms. py_json x \<noteq> None)
            \<longrightarrow>
            (\<exists>reply body.
               fst (rich_inspect_variables_request interp ad message w) = Inr reply
               \<and> json_at reply ''body'' = Inr body
               \<and> (\<forall>k. (entry body ''data'' k \<noteq> None) = (k \<in> py_str ` fst ` set ds))
               \<and> (\<forall>k. (entry body ''metadata'' k \<noteq> None)
                      = (\<exists>key \<in> fst ` set ds. py_str key = k \<and> key \<in> fst ` set ms))))
       \<and> (\<forall>interp' ad' w' f'.
            ((stopped_threads w' = {}
                \<and> fst (interp' (rich_inspect_code v) (globals w')) = None)
              \<or> (stopped_threads w' \<noteq> {} \<and> json_at args ''frameId'' = Inr (JInt f')))
            \<and> map_of (globals (snd (rich_inspect_variables_request interp' ad' message w')))
                 (v @ ''_repr_data'')
               = map_of (globals (snd (rich_inspect_variables_request interp ad message w)))
                   (v @ ''_repr_data'')
            \<and> map_of (globals (snd (rich_inspect_variables_request interp' ad' message w')))
                 (v @ ''_repr_metada'')
               = map_of (globals (snd (rich_inspect_variables_request interp ad message w)))
                   (v @ ''_repr_metada'')
            \<longrightarrow>
            fst (rich_inspect_variables_request interp' ad' message w')
              = fst (rich_inspect_variables_request interp ad message w))
       \<and> (\<forall>v'. v' \<noteq> v \<longrightarrow>
            {v @ ''_repr_data'', v @ ''_repr_metada''}
              \<inter> {v' @ ''_repr_data'', v' @ ''_repr_metada''} = {})"
proof -
  let ?R = "rich_inspect_variables_request interp ad message w"
  have path: "(stopped_threads w = {} \<and> fst (interp (rich_inspect_code v) (globals w)) = None)
         \<or> (stopped_threads w \<noteq> {} \<and> json_at args ''frameId'' = Inr (JInt f)
            \<and> json_at message ''seq'' = Inr (JInt s))"
    using assms(3,5) by blast
  have reads: "fst ?R = rich_inspect_reply message v (globals (snd ?R))"
    by (rule rich_request_reads [where interp = interp and ad = ad and w = w and f = f
          and s = s, OF assms(1,2) path])
  have names: "var_repr_data v = v @ ''_repr_data''" "var_repr_metadata v = v @ ''_repr_metada''"
    by (simp_all add: var_repr_data_def var_repr_metadata_def)
  have w1: "stopped_threads w = {} \<longrightarrow>
            executed (snd ?R)
              = executed w
                @ [''from IPython import get_ipython;'' @ v @ ''_repr_data,'' @ v
                   @ ''_repr_metada= get_ipython().display_formatter.format('' @ v @ '')'']"
    using rich_not_stopped_exec [OF _ assms(1,2), of w interp ad]
    by (simp add: rich_inspect_code_def names)
  have w2: "stopped_threads w \<noteq> {} \<longrightarrow>
            (\<exists>request.
               forwarded (snd ?R) = forwarded w @ [request]
               \<and> and_then (json_at request ''arguments'') (\<lambda>a. json_at a ''expression'')
                   = Inr (JString (v @ ''_repr_data,'' @ v @ ''_repr_metada'')))"
  proof
    assume st: "stopped_threads w \<noteq> {}"
    then have fr: "json_at args ''frameId'' = Inr (JInt f)"
      using assms(5) by blast
    have fw: "forwarded (snd ?R)
        = forwarded w @ [set_expression_request v (to_int32 f) (to_int32 s)]"
      using rich_stopped [OF st assms(1,2) fr assms(3), of interp ad] by (rule conjunct1)
    have ex: "and_then (json_at (set_expression_request v (to_int32 f) (to_int32 s))
          ''arguments'') (\<lambda>a. json_at a ''expression'')
        = Inr (JString (v @ ''_repr_data,'' @ v @ ''_repr_metada''))"
      by (simp add: set_expression_request_def json_object_def json_at_def names)
    show "\<exists>request.
               forwarded (snd ?R) = forwarded w @ [request]
               \<and> and_then (json_at request ''arguments'') (\<lambda>a. json_at a ''expression'')
                   = Inr (JString (v @ ''_repr_data,'' @ v @ ''_repr_metada''))"
      by (intro exI conjI) (rule fw ex)+
  qed
  have r1: "map_of (globals (snd ?R)) (v @ ''_repr_data'') = None
            \<or> map_of (globals (snd ?R)) (v @ ''_repr_metada'') = None \<longrightarrow>
            fst ?R = Inl error_already_set"
    using rich_inspect_reply_missing [OF assms(3,4), of "globals (snd ?R)" v] reads
    by (simp add: names)
  have r2: "\<forall>repr_data repr_metadata ds ms.
            map_of (globals (snd ?R)) (v @ ''_repr_data'') = Some repr_data
            \<and> map_of (globals (snd ?R)) (v @ ''_repr_metada'') = Some repr_metadata
            \<and> py_entries repr_data = Some ds \<and> (\<forall>x \<in> snd ` set ds. py_json x \<noteq> None)
            \<and> py_entries repr_metadata = Some ms \<and> (\<forall>x \<in> snd ` set ms. py_json x \<noteq> None)
            \<longrightarrow>
            (\<exists>reply body.
               fst ?R = Inr reply
               \<and> json_at reply ''body'' = Inr body
               \<and> (\<forall>k. (entry body ''data'' k \<noteq> None) = (k \<in> py_str ` fst ` set ds))
               \<and> (\<forall>k. (entry body ''metadata'' k \<noteq> None)
                      = (\<exists>key \<in> fst ` set ds. py_str key = k \<and> key \<in> fst ` set ms)))"
  proof (intro allI impI)
    fix repr_data repr_metadata ds ms
    assume h: "map_of (globals (snd ?R)) (v @ ''_repr_data'') = Some repr_data
            \<and> map_of (globals (snd ?R)) (v @ ''_repr_metada'') = Some repr_metadata
            \<and> py_entries repr_data = Some ds \<and> (\<forall>x \<in> snd ` set ds. py_json x \<noteq> None)
            \<and> py_entries repr_metadata = Some ms \<and> (\<forall>x \<in> snd ` set ms. py_json x \<noteq> None)"
    have g1: "map_of (globals (snd ?R)) (var_repr_data v) = Some repr_data"
      using h by (simp add: names)
    have g2: "map_of (globals (snd ?R)) (var_repr_metadata v) = Some repr_metadata"
      using h by (simp add: names)
    obtain reply body where r:
        "rich_inspect_reply message v (globals (snd ?R)) = Inr reply"
        "json_at reply ''body'' = Inr body"
        "\<forall>k. (entry body ''data'' k \<noteq> None) = (k \<in> py_str ` fst ` set ds)"
        "\<forall>k. (entry body ''metadata'' k \<noteq> None)
                = (\<exists>key \<in> fst ` set ds. py_str key = k \<and> key \<in> fst ` set ms)"
      using rich_inspect_reply_entries [OF assms(3,4) g1 g2 h [THEN conjunct2, THEN conjunct2,
            THEN conjunct1]
          h [THEN conjunct2, THEN conjunct2, THEN conjunct2, THEN conjunct1]
          h [THEN conjunct2, THEN conjunct2, THEN conjunct2, THEN conjunct2, THEN conjunct1]
          h [THEN conjunct2, THEN conjunct2, THEN conjunct2, THEN conjunct2, THEN conjunct2]]
      by (elim exE conjE) (rule that)
    have r0: "fst ?R = Inr reply"
      using reads r(1) by simp
    show "\<exists>reply body.
               fst ?R = Inr reply
               \<and> json_at reply ''body'' = Inr body
               \<and> (\<forall>k. (entry body ''data'' k \<noteq> None) = (k \<in> py_str ` fst ` set ds))
               \<and> (\<forall>k. (entry body ''metadata'' k \<noteq> None)
                      = (\<exists>key \<in> fst ` set ds. py_str key = k \<and> key \<in> fst ` set ms))"
      by (intro exI conjI) (rule r0 r(2,3,4))+
  qed
  have u: "\<forall>interp' ad' w' f'.
            ((stopped_threads w' = {}
                \<and> fst (interp' (rich_inspect_code v) (globals w')) = None)
              \<or> (stopped_threads w' \<noteq> {} \<and> json_at args ''frameId'' = Inr (JInt f')))
            \<and> map_of (globals (snd (rich_inspect_variables_request interp' ad' message w')))
                 (v @ ''_repr_data'')
               = map_of (globals (snd ?R)) (v @ ''_repr_data'')
            \<and> map_of (globals (snd (rich_inspect_variables_request interp' ad' message w')))
                 (v @ ''_repr_metada'')
               = map_of (globals (snd ?R)) (v @ ''_repr_metada'')
            \<longrightarrow>
            fst (rich_inspect_variables_request interp' ad' message w') = fst ?R"
  proof (intro allI impI)
    fix interp' :: interpreter and ad' :: adapter and w' :: world and f' :: int
    let ?R' = "rich_inspect_variables_request interp' ad' message w'"
    assume h: "((stopped_threads w' = {}
                \<and> fst (interp' (rich_inspect_code v) (globals w')) = None)
              \<or> (stopped_threads w' \<noteq> {} \<and> json_at args ''frameId'' = Inr (JInt f')))
            \<and> map_of (globals (snd ?R')) (v @ ''_repr_data'')
               = map_of (globals (snd ?R)) (v @ ''_repr_data'')
            \<and> map_of (globals (snd ?R')) (v @ ''_repr_metada'')
               = map_of (globals (snd ?R)) (v @ ''_repr_metada'')"
    have path': "(stopped_threads w' = {}
                \<and> fst (interp' (rich_inspect_code v) (globals w')) = None)
         \<or> (stopped_threads w' \<noteq> {} \<and> json_at args ''frameId'' = Inr (JInt f')
            \<and> json_at message ''seq'' = Inr (JInt s))"
      using h assms(3) by blast
    have reads': "fst ?R' = rich_inspect_reply message v (globals (snd ?R'))"
      by (rule rich_request_reads [where interp = interp' and ad = ad' and w = w'
          and f = f' and s = s, OF assms(1,2) path'])
    have "rich_inspect_reply message v (globals (snd ?R'))
        = rich_inspect_reply message v (globals (snd ?R))"
      using h by (intro rich_inspect_reply_reads) (simp_all add: names)
    then show "fst ?R' = fst ?R"
      using reads reads' by simp
  qed
  have d: "\<forall>v'. v' \<noteq> v \<longrightarrow>
            {v @ ''_repr_data'', v @ ''_repr_metada''}
              \<inter> {v' @ ''_repr_data'', v' @ ''_repr_metada''} = {}"
  proof (intro allI impI)
    fix v' :: string
    assume "v' \<noteq> v"
    then show "{v @ ''_repr_data'', v @ ''_repr_metada''}
              \<inter> {v' @ ''_repr_data'', v' @ ''_repr_metada''} = {}"
      using repr_names_differ [of v v'] repr_names_differ [of v' v] by auto
  qed
  show ?thesis
    by (intro conjI) (rule w1 w2 r1 r2 u d)+
qed

theorem rich_inspect_globals_by_name_witness:
  "executed (snd (rich_inspect_variables_request formatting_interpreter silent_adapter
       (rich_request 7) idle_world))
     = [''from IPython import get_ipython;x_repr_data,x_repr_metada= get_ipython().display_formatter.format(x)'']
   \<and> (\<exists>reply body.
        fst (rich_inspect_variables_request formatting_interpreter silent_adapter
               (rich_request 7) idle_world) = Inr reply
        \<and> json_at reply ''body'' = Inr body
        \<and> entry body ''data'' ''text/plain'' \<noteq> None
        \<and> entry body ''metadata'' ''text/plain'' = None)
   \<and> fst (rich_inspect_variables_request quiet_interpreter silent_adapter
            (rich_request 7) idle_world) = Inl error_already_set
   \<and> (\<exists>request.
        forwarded (snd (rich_inspect_variables_request quiet_interpreter formatting_adapter
          (rich_request 7) stopped_world)) = [request]
        \<and> and_then (json_at request ''arguments'') (\<lambda>a. json_at a ''expression'')
            = Inr (JString ''x_repr_data,x_repr_metada''))
   \<and> {''x_repr_data'', ''x_repr_metada''} \<inter> {''y_repr_data'', ''y_repr_metada''} = {}"
proof -
  let ?ds = "[(py_string ''text/plain'', py_string ''1''),
             (py_string ''text/html'', py_string ''<b>1</b>'')]"
  let ?ms = "[(py_string ''text/html'', py_string ''isolated'')]"
  let ?R1 = "rich_inspect_variables_request formatting_interpreter silent_adapter
       (rich_request 7) idle_world"
  let ?R2 = "rich_inspect_variables_request quiet_interpreter silent_adapter
       (rich_request 7) idle_world"
  let ?R3 = "rich_inspect_variables_request quiet_interpreter formatting_adapter
       (rich_request 7) stopped_world"
  note f = rich_request_fields [of 7]
  note f1 = f [THEN conjunct1]
  note f2 = f [THEN conjunct2, THEN conjunct1]
  note f3 = f [THEN conjunct2, THEN conjunct2, THEN conjunct1]
  note f4 = f [THEN conjunct2, THEN conjunct2, THEN conjunct2, THEN conjunct1]
  note f5 = f [THEN conjunct2, THEN conjunct2, THEN conjunct2, THEN conjunct2]
  have i: "stopped_threads idle_world = {} \<and> globals idle_world = []
      \<and> executed idle_world = [] \<and> forwarded idle_world = []"
    by (simp add: idle_world_def)
  have st: "stopped_threads stopped_world \<noteq> {} \<and> forwarded stopped_world = []"
    by (simp add: stopped_world_def)
  have p1: "(stopped_threads idle_world = {}
        \<and> fst (formatting_interpreter (rich_inspect_code ''x'') (globals idle_world)) = None)
      \<or> (stopped_threads idle_world \<noteq> {}
        \<and> json_at (JObject [(''frameId'', JInt 3), (''variableName'', JString ''x'')])
             ''frameId'' = Inr (JInt 3))"
    by (simp add: i formatting_interpreter_def)
  have p2: "(stopped_threads idle_world = {}
        \<and> fst (quiet_interpreter (rich_inspect_code ''x'') (globals idle_world)) = None)
      \<or> (stopped_threads idle_world \<noteq> {}
        \<and> json_at (JObject [(''frameId'', JInt 3), (''variableName'', JString ''x'')])
             ''frameId'' = Inr (JInt 3))"
    by (simp add: i quiet_interpreter_def)
  have p3: "(stopped_threads stopped_world = {}
        \<and> fst (quiet_interpreter (rich_inspect_code ''x'') (globals stopped_world)) = None)
      \<or> (stopped_threads stopped_world \<noteq> {}
        \<and> json_at (JObject [(''frameId'', JInt 3), (''variableName'', JString ''x'')])
             ''frameId'' = Inr (JInt 3))"
    using st f3 by simp
  note t1 = rich_inspect_globals_by_name [where interp = formatting_interpreter
      and ad = silent_adapter and w = idle_world and f = 3, OF f1 f2 f4 f5 p1]
  note t2 = rich_inspect_globals_by_name [where interp = quiet_interpreter
      and ad = silent_adapter and w = idle_world and f = 3, OF f1 f2 f4 f5 p2]
  note t3 = rich_inspect_globals_by_name [where interp = quiet_interpreter
      and ad = formatting_adapter and w = stopped_world and f = 3, OF f1 f2 f4 f5 p3]
  have g1: "globals (snd ?R1) = rich_globals"
    using rich_request_globals [OF f1 f2, of idle_world formatting_interpreter silent_adapter]
    by (simp add: i formatting_interpreter_def)
  have g2: "globals (snd ?R2) = []"
    using rich_request_globals [OF f1 f2, of idle_world quiet_interpreter silent_adapter]
    by (simp add: i quiet_interpreter_def)
  have a: "executed (snd ?R1)
     = [''from IPython import get_ipython;x_repr_data,x_repr_metada= get_ipython().display_formatter.format(x)'']"
    using t1 [THEN conjunct1] i by simp
  have l: "map_of rich_globals (''x'' @ ''_repr_data'') = Some rich_data
      \<and> map_of rich_globals (''x'' @ ''_repr_metada'') = Some rich_metadata
      \<and> py_entries rich_data = Some ?ds
      \<and> (\<forall>x \<in> snd ` set ?ds. py_json x \<noteq> None)
      \<and> py_entries rich_metadata = Some ?ms
      \<and> (\<forall>x \<in> snd ` set ?ms. py_json x \<noteq> None)"
    by (simp add: rich_globals_def rich_data_def rich_metadata_def py_string_def)
  obtain reply body where r: "fst ?R1 = Inr reply" "json_at reply ''body'' = Inr body"
      "\<forall>k. (entry body ''data'' k \<noteq> None) = (k \<in> py_str ` fst ` set ?ds)"
      "\<forall>k. (entry body ''metadata'' k \<noteq> None)
             = (\<exists>key \<in> fst ` set ?ds. py_str key = k \<and> key \<in> fst ` set ?ms)"
    using t1 [THEN conjunct2, THEN conjunct2, THEN conjunct2, THEN conjunct1, THEN spec,
        THEN spec, THEN spec, THEN spec, THEN mp, of rich_data rich_metadata ?ds ?ms,
        OF l [folded g1]]
    by (elim exE conjE) (rule that)
  have e1: "entry body ''data'' ''text/plain'' \<noteq> None"
    unfolding r(3) [rule_format] by (simp add: py_string_facts)
  have e2: "entry body ''metadata'' ''text/plain'' = None"
    using r(4) [rule_format, of "''text/plain''"] by (simp add: py_string_facts)
  have b: "\<exists>reply body.
        fst ?R1 = Inr reply
        \<and> json_at reply ''body'' = Inr body
        \<and> entry body ''data'' ''text/plain'' \<noteq> None
        \<and> entry body ''metadata'' ''text/plain'' = None"
    by (intro exI conjI) (rule r(1,2) e1 e2)+
  have c: "fst ?R2 = Inl error_already_set"
    using t2 [THEN conjunct2, THEN conjunct2, THEN conjunct1] by (simp add: g2)
  have d: "\<exists>request.
        forwarded (snd ?R3) = [request]
        \<and> and_then (json_at request ''arguments'') (\<lambda>a. json_at a ''expression'')
            = Inr (JString ''x_repr_data,x_repr_metada'')"
    using t3 [THEN conjunct2, THEN conjunct1] st by simp
  have ne: "''y'' \<noteq> ''x''" by simp
  have e: "{''x_repr_data'', ''x_repr_metada''} \<inter> {''y_repr_data'', ''y_repr_metada''} = {}"
    using t1 [THEN conjunct2, THEN conjunct2, THEN conjunct2, THEN conjunct2, THEN conjunct2,
        THEN spec, THEN mp, OF ne]
    by simp
  show ?thesis
    by (intro conjI) (rule a b c d e)+
qed

end
